theory Spec2Isabelle
  imports Main "HOL-Library.AList" "HOL-Library.Multiset"
begin

section \<open>JavaScript values used by the pipeline\<close>

text \<open>
  The numbers that \<open>parseSortableDate\<close> and the sort comparator of \<open>App.tsx\<close> handle are
  integral millisecond time stamps (exact as IEEE doubles, far below \<open>2^53\<close>), the two
  infinities and \<open>NaN\<close>. Subtraction and comparison follow IEEE 754 on these values.
\<close>

datatype jsnum = Num int | Infinity | NegInfinity | NaN

fun jsSub :: "jsnum \<Rightarrow> jsnum \<Rightarrow> jsnum" where
  "jsSub (Num a) (Num b) = Num (a - b)"
| "jsSub (Num a) Infinity = NegInfinity"
| "jsSub (Num a) NegInfinity = Infinity"
| "jsSub Infinity (Num b) = Infinity"
| "jsSub Infinity NegInfinity = Infinity"
| "jsSub Infinity Infinity = NaN"
| "jsSub NegInfinity (Num b) = NegInfinity"
| "jsSub NegInfinity Infinity = NegInfinity"
| "jsSub NegInfinity NegInfinity = NaN"
| "jsSub NaN _ = NaN"
| "jsSub _ NaN = NaN"

fun jsLess :: "jsnum \<Rightarrow> jsnum \<Rightarrow> bool" where
  "jsLess (Num a) (Num b) = (a < b)"
| "jsLess (Num a) Infinity = True"
| "jsLess NegInfinity (Num b) = True"
| "jsLess NegInfinity Infinity = True"
| "jsLess _ _ = False"

fun jsLessEq :: "jsnum \<Rightarrow> jsnum \<Rightarrow> bool" where
  "jsLessEq NaN _ = False"
| "jsLessEq _ NaN = False"
| "jsLessEq a b = (a = b \<or> jsLess a b)"

subsection \<open>Strings\<close>

text \<open>\<open>\d\<close> of a JavaScript regular expression without the \<open>u\<close> flag: the ASCII digits.\<close>

definition isDigit :: "char \<Rightarrow> bool" where
  "isDigit c = (48 \<le> (of_char c :: nat) \<and> (of_char c :: nat) \<le> 57)"

definition digitVal :: "char \<Rightarrow> nat" where
  "digitVal c = (of_char c :: nat) - 48"

definition twoDigits :: "char \<Rightarrow> char \<Rightarrow> nat" where
  "twoDigits a b = 10 * digitVal a + digitVal b"

text \<open>
  \<open>/^\d{2}\/\d{2}\/\d{2}$/.test(s)\<close> and \<open>/^\d{2}-\d{2}-\d{2}$/.test(s)\<close>: the whole string
  is two digits, the separator, two digits, the separator, two digits.
\<close>

definition testDatePattern :: "char \<Rightarrow> string \<Rightarrow> bool" where
  "testDatePattern sep s =
     (length s = 8 \<and> isDigit (s ! 0) \<and> isDigit (s ! 1) \<and> s ! 2 = sep
      \<and> isDigit (s ! 3) \<and> isDigit (s ! 4) \<and> s ! 5 = sep
      \<and> isDigit (s ! 6) \<and> isDigit (s ! 7))"

text \<open>\<open>String.prototype.split\<close> with a one-character separator.\<close>

fun split :: "char \<Rightarrow> string \<Rightarrow> string list" where
  "split sep [] = [[]]"
| "split sep (c # cs) =
     (if c = sep then [] # split sep cs
      else (case split sep cs of p # ps \<Rightarrow> (c # p) # ps | [] \<Rightarrow> [[c]]))"

subsection \<open>The \<open>Date\<close> constructor on date-only ISO strings\<close>

text \<open>
  \<open>new Date("YYYY-MM-DD").getTime()\<close> is the number of milliseconds from the epoch to
  midnight UTC of that day (ECMA-262, Date Time String Format), \<open>NaN\<close> when the string is
  not accepted. Only strings of the shape \<open>20YY-MM-DD\<close> reach \<open>Date\<close> in this program.
  Engines agree that a month outside 01..12 and a day outside 01..31 give an invalid date;
  for a day 29..31 that the month does not have they differ (V8 rolls over into the next
  month, SpiderMonkey and JavaScriptCore answer Invalid Date). The flag \<open>rollover\<close>
  selects the behaviour; everything proved holds for both values.
\<close>

definition InLeapYear :: "int \<Rightarrow> bool" where
  "InLeapYear y = (y mod 4 = 0 \<and> (y mod 100 \<noteq> 0 \<or> y mod 400 = 0))"

definition DayFromYear :: "int \<Rightarrow> int" where
  "DayFromYear y =
     365 * (y - 1970) + (y - 1969) div 4 - (y - 1901) div 100 + (y - 1601) div 400"

definition daysInMonth :: "int \<Rightarrow> nat \<Rightarrow> nat" where
  "daysInMonth y m =
     (if m = 2 then (if InLeapYear y then 29 else 28)
      else if m = 4 \<or> m = 6 \<or> m = 9 \<or> m = 11 then 30 else 31)"

fun daysBeforeMonth :: "int \<Rightarrow> nat \<Rightarrow> nat" where
  "daysBeforeMonth y 0 = 0"
| "daysBeforeMonth y (Suc 0) = 0"
| "daysBeforeMonth y (Suc (Suc m)) = daysBeforeMonth y (Suc m) + daysInMonth y (Suc m)"

definition msPerDay :: int where
  "msPerDay = 86400000"

definition dateOnlyTime :: "bool \<Rightarrow> int \<Rightarrow> nat \<Rightarrow> nat \<Rightarrow> int option" where
  "dateOnlyTime rollover y m d =
     (if 1 \<le> m \<and> m \<le> 12 \<and> 1 \<le> d \<and> d \<le> (if rollover then 31 else daysInMonth y m)
      then Some ((DayFromYear y + int (daysBeforeMonth y m) + int d - 1) * msPerDay)
      else None)"

text \<open>\<open>new Date(s).getTime()\<close>, with \<open>None\<close> for \<open>NaN\<close>.\<close>

definition newDateGetTime :: "bool \<Rightarrow> string \<Rightarrow> int option" where
  "newDateGetTime rollover s =
     (if length s = 10 \<and> isDigit (s ! 0) \<and> isDigit (s ! 1) \<and> isDigit (s ! 2) \<and> isDigit (s ! 3)
         \<and> s ! 4 = CHR ''-'' \<and> isDigit (s ! 5) \<and> isDigit (s ! 6)
         \<and> s ! 7 = CHR ''-'' \<and> isDigit (s ! 8) \<and> isDigit (s ! 9)
      then dateOnlyTime rollover
             (int (100 * twoDigits (s ! 0) (s ! 1) + twoDigits (s ! 2) (s ! 3)))
             (twoDigits (s ! 5) (s ! 6)) (twoDigits (s ! 8) (s ! 9))
      else None)"

section \<open>\<open>parseSortableDate\<close> (App.tsx, lines 26 to 52)\<close>

text \<open>The first block: \<open>MM/DD/YY\<close>. \<open>None\<close> means the block falls through.\<close>

definition trySlash :: "bool \<Rightarrow> string \<Rightarrow> int option" where
  "trySlash rollover dateString =
     (if testDatePattern (CHR ''/'') dateString then
        (let parts = split (CHR ''/'') dateString in
         if length parts = 3 then
           (let isoDateString = ''20'' @ parts ! 2 @ ''-'' @ parts ! 0 @ ''-'' @ parts ! 1
            in newDateGetTime rollover isoDateString)
         else None)
      else None)"

text \<open>The second block: \<open>DD-MM-YY\<close>.\<close>

definition tryDash :: "bool \<Rightarrow> string \<Rightarrow> int option" where
  "tryDash rollover dateString =
     (if testDatePattern (CHR ''-'') dateString then
        (let parts = split (CHR ''-'') dateString in
         if length parts = 3 then
           (let isoDateString = ''20'' @ parts ! 2 @ ''-'' @ parts ! 1 @ ''-'' @ parts ! 0
            in newDateGetTime rollover isoDateString)
         else None)
      else None)"

definition parseSortableDate :: "bool \<Rightarrow> string \<Rightarrow> jsnum" where
  "parseSortableDate rollover dateString =
     (if dateString = [] then Infinity
      else case trySlash rollover dateString of
             Some t \<Rightarrow> Num t
           | None \<Rightarrow> (case tryDash rollover dateString of
                         Some t \<Rightarrow> Num t
                       | None \<Rightarrow> Infinity))"

section \<open>Documents, files and the external services\<close>

text \<open>
  A processed document is a JavaScript object whose properties all hold strings. The
  program reads it with \<open>d.orden\<close>, tests \<open>'fechaRegistro' in d\<close>, copies it with
  \<open>{...d}\<close> and writes \<open>d[field] = value\<close> for a field name chosen at run time, so it is
  modelled as the object it is: the list of its properties in insertion order. Reading a
  missing property is \<open>undefined\<close>, here \<open>None\<close>; writing keeps the position of an existing
  property and appends a new one.
\<close>

type_synonym doc = "(string \<times> string) list"

definition getProp :: "doc \<Rightarrow> string \<Rightarrow> string option" where
  "getProp d k = map_of d k"

definition hasProp :: "string \<Rightarrow> doc \<Rightarrow> bool" where
  "hasProp k d = (map_of d k \<noteq> None)"

definition setProp :: "string \<Rightarrow> string \<Rightarrow> doc \<Rightarrow> doc" where
  "setProp k v d = AList.update k v d"

text \<open>The records of \<open>types.ts\<close> that the extractors return.\<close>

record ExtractedWorkOrderData =
  orden :: string
  serie :: string
  fechaRegistro :: string
  categoria :: string
  descripcion :: string
  fechaCierre :: string

record ExtractedSupplyData =
  orden :: string
  serie :: string
  fechaRegistro :: string
  contadorBN :: string
  fechaEntrega :: string

record ExtractedUninstallationData =
  folio :: string
  serie :: string
  fecha :: string
  contadorBN :: string
  contadorColor :: string
  contadorEscaner :: string
  comentarios :: string

record ExtractedInstallationData =
  folio :: string
  serie :: string
  fecha :: string
  contadorBN :: string
  comentarios :: string

text \<open>A browser \<open>File\<close>: its name and its bytes.\<close>

record File =
  name :: string
  content :: string

text \<open>The answer of \<open>classifyDocument\<close>.\<close>

datatype Classification = WorkOrder | SupplyRequest | Uninstallation | Installation | Unknown

text \<open>
  The asynchronous collaborators. A rejected promise is \<open>Inl msg\<close>, with \<open>msg\<close> the
  \<open>message\<close> of the error thrown. \<open>classifyDocument\<close> catches every error itself and
  answers \<open>'unknown'\<close> (geminiService.ts), so it has no error result. \<open>fileToBase64\<close> lives
  in \<open>utils/fileUtils\<close>; it is taken as it is used, a promise of a string.
\<close>

record Services =
  fileToBase64 :: "File \<Rightarrow> string + string"
  classifyDocument :: "string \<Rightarrow> Classification"
  extractWorkOrderDataFromPdf :: "string \<Rightarrow> string + ExtractedWorkOrderData"
  extractSupplyDataFromPdf :: "string \<Rightarrow> string + ExtractedSupplyData"
  extractUninstallationDataFromPdf :: "string \<Rightarrow> string + ExtractedUninstallationData"
  extractInstallationDataFromPdf :: "string \<Rightarrow> string + ExtractedInstallationData"

definition failureMarker :: string where
  "failureMarker = ''Fallo de Procesamiento''"

text \<open>\<open>x ? `${x}.pdf` : fileName\<close>: the empty string is the only falsy string.\<close>

definition archivoFor :: "string \<Rightarrow> string \<Rightarrow> string" where
  "archivoFor ident fileName = (if ident \<noteq> [] then ident @ ''.pdf'' else fileName)"

text \<open>\<open>msg || fallback\<close>.\<close>

definition orElse :: "string \<Rightarrow> string \<Rightarrow> string" where
  "orElse msg fallback = (if msg \<noteq> [] then msg else fallback)"

subsection \<open>The object literals of \<open>handleProcessFiles\<close> and \<open>handleRetryFile\<close>\<close>

text \<open>
  Both handlers build the same four literals (lines 157 to 215 and 269 to 327); they differ
  only in the name of the variable holding the file.
\<close>

definition workOrderDoc :: "ExtractedWorkOrderData \<Rightarrow> string \<Rightarrow> doc" where
  "workOrderDoc extractedData fileName =
     [(''type'', ''workOrder''),
      (''orden'', ExtractedWorkOrderData.orden extractedData),
      (''archivo'', archivoFor (ExtractedWorkOrderData.orden extractedData) fileName),
      (''serie'', ExtractedWorkOrderData.serie extractedData),
      (''fechaRegistro'', ExtractedWorkOrderData.fechaRegistro extractedData),
      (''categoria'', categoria extractedData),
      (''descripcion'', descripcion extractedData),
      (''fechaCierre'', fechaCierre extractedData),
      (''originalFileName'', fileName)]"

definition supplyRequestDoc :: "ExtractedSupplyData \<Rightarrow> string \<Rightarrow> doc" where
  "supplyRequestDoc extractedData fileName =
     [(''type'', ''supplyRequest''),
      (''orden'', ExtractedSupplyData.orden extractedData),
      (''archivo'', archivoFor (ExtractedSupplyData.orden extractedData) fileName),
      (''serie'', ExtractedSupplyData.serie extractedData),
      (''fechaRegistro'', ExtractedSupplyData.fechaRegistro extractedData),
      (''contador'', ExtractedSupplyData.contadorBN extractedData),
      (''fechaEntrega'', fechaEntrega extractedData),
      (''originalFileName'', fileName)]"

definition uninstallationDoc :: "ExtractedUninstallationData \<Rightarrow> string \<Rightarrow> doc" where
  "uninstallationDoc extractedData fileName =
     (let archivoNombre = archivoFor (ExtractedUninstallationData.folio extractedData) fileName in
      [(''type'', ''uninstallation''),
       (''orden'', ExtractedUninstallationData.folio extractedData),
       (''archivo'', archivoNombre),
       (''serie'', ExtractedUninstallationData.serie extractedData),
       (''fecha'', ExtractedUninstallationData.fecha extractedData),
       (''contadorBN'', ExtractedUninstallationData.contadorBN extractedData),
       (''contadorColor'', contadorColor extractedData),
       (''contadorEscaner'', contadorEscaner extractedData),
       (''link'', archivoNombre),
       (''comentarios'', ExtractedUninstallationData.comentarios extractedData),
       (''originalFileName'', fileName)])"

definition installationDoc :: "ExtractedInstallationData \<Rightarrow> string \<Rightarrow> doc" where
  "installationDoc extractedData fileName =
     (let archivoNombre = archivoFor (ExtractedInstallationData.folio extractedData) fileName in
      [(''type'', ''installation''),
       (''orden'', ExtractedInstallationData.folio extractedData),
       (''archivo'', archivoNombre),
       (''serie'', ExtractedInstallationData.serie extractedData),
       (''fecha'', ExtractedInstallationData.fecha extractedData),
       (''contadorBN'', ExtractedInstallationData.contadorBN extractedData),
       (''link'', archivoNombre),
       (''comentarios'', ExtractedInstallationData.comentarios extractedData),
       (''originalFileName'', fileName)])"

text \<open>The literal pushed by the \<open>catch\<close> of the batch loop (line 222).\<close>

definition failureDoc :: "string \<Rightarrow> string \<Rightarrow> doc" where
  "failureDoc fileName errorMessage =
     [(''type'', ''workOrder''),
      (''orden'', failureMarker),
      (''archivo'', fileName),
      (''serie'', ''Error''),
      (''fechaRegistro'', []),
      (''categoria'', ''Error''),
      (''descripcion'', ''Error''),
      (''fechaCierre'', []),
      (''originalFileName'', fileName),
      (''error'', errorMessage)]"

text \<open>
  The body of the \<open>try\<close> block: the file is encoded, classified, and the \<open>switch\<close> on the
  classification awaits the matching extractor. The message of the error thrown for
  \<open>'unknown'\<close> is the only difference between the two handlers and is the parameter
  \<open>unknownMessage\<close>.
\<close>

definition classifyAndExtract :: "Services \<Rightarrow> string \<Rightarrow> File \<Rightarrow> string + doc" where
  "classifyAndExtract sv unknownMessage file =
     (case fileToBase64 sv file of
        Inl err \<Rightarrow> Inl err
      | Inr base64String \<Rightarrow>
          (case classifyDocument sv base64String of
             Unknown \<Rightarrow> Inl unknownMessage
           | WorkOrder \<Rightarrow>
               (case extractWorkOrderDataFromPdf sv base64String of
                  Inl err \<Rightarrow> Inl err
                | Inr extractedData \<Rightarrow> Inr (workOrderDoc extractedData (name file)))
           | SupplyRequest \<Rightarrow>
               (case extractSupplyDataFromPdf sv base64String of
                  Inl err \<Rightarrow> Inl err
                | Inr extractedData \<Rightarrow> Inr (supplyRequestDoc extractedData (name file)))
           | Uninstallation \<Rightarrow>
               (case extractUninstallationDataFromPdf sv base64String of
                  Inl err \<Rightarrow> Inl err
                | Inr extractedData \<Rightarrow> Inr (uninstallationDoc extractedData (name file)))
           | Installation \<Rightarrow>
               (case extractInstallationDataFromPdf sv base64String of
                  Inl err \<Rightarrow> Inl err
                | Inr extractedData \<Rightarrow> Inr (installationDoc extractedData (name file)))))"

definition batchUnknownMessage :: string where
  "batchUnknownMessage = ''No se pudo reconocer el tipo de documento.''"

text \<open>The fallback of line 221; its accented letter is the code unit \<open>0xF3\<close>.\<close>

definition batchFallbackMessage :: string where
  "batchFallbackMessage = ''Ocurri'' @ [CHR 0xF3] @ '' un error desconocido.''"

definition retryUnknownMessage :: string where
  "retryUnknownMessage = ''No se pudo reconocer el tipo de documento al reintentar.''"

text \<open>The fallback of line 339, with the same accented letter.\<close>

definition retryFallbackMessage :: string where
  "retryFallbackMessage = ''El intento de re-procesar fall'' @ [CHR 0xF3] @ ''.''"

section \<open>\<open>Array.prototype.sort\<close> with a comparator\<close>

text \<open>
  ECMA-262 (2019 and later) fixes the result of \<open>sort\<close> for a consistent comparator: the
  permutation that puts \<open>x\<close> before \<open>y\<close> when the comparator is negative on them and keeps
  the order of elements on which it is zero. A comparator result of \<open>NaN\<close> counts as
  \<open>+0\<close>. Insertion from the right computes that permutation.
\<close>

definition sortCompare :: "('a \<Rightarrow> 'a \<Rightarrow> jsnum) \<Rightarrow> 'a \<Rightarrow> 'a \<Rightarrow> jsnum" where
  "sortCompare comparefn x y = (case comparefn x y of NaN \<Rightarrow> Num 0 | v \<Rightarrow> v)"

fun insertSorted :: "('a \<Rightarrow> 'a \<Rightarrow> jsnum) \<Rightarrow> 'a \<Rightarrow> 'a list \<Rightarrow> 'a list" where
  "insertSorted comparefn x [] = [x]"
| "insertSorted comparefn x (y # ys) =
     (if jsLess (Num 0) (sortCompare comparefn x y)
      then y # insertSorted comparefn x ys
      else x # y # ys)"

definition jsSort :: "('a \<Rightarrow> 'a \<Rightarrow> jsnum) \<Rightarrow> 'a list \<Rightarrow> 'a list" where
  "jsSort comparefn xs = foldr (insertSorted comparefn) xs []"

text \<open>\<open>Array.prototype.findIndex\<close>, with \<open>None\<close> for \<open>-1\<close>.\<close>

fun findIndex :: "('a \<Rightarrow> bool) \<Rightarrow> 'a list \<Rightarrow> nat option" where
  "findIndex p [] = None"
| "findIndex p (x # xs) =
     (if p x then Some 0 else map_option Suc (findIndex p xs))"

section \<open>\<open>handleProcessFiles\<close> (App.tsx, lines 126 to 243)\<close>

record AppState =
  files :: "File list"
  processedData :: "doc list"

text \<open>One turn of the loop: the \<open>try\<close> block and its \<open>catch\<close>; the result is what is pushed.\<close>

definition processFile :: "Services \<Rightarrow> File \<Rightarrow> doc" where
  "processFile sv file =
     (case classifyAndExtract sv batchUnknownMessage file of
        Inr d \<Rightarrow> d
      | Inl err \<Rightarrow> failureDoc (name file) (orElse err batchFallbackMessage))"

text \<open>The \<open>for\<close> loop over the files, \<open>allData\<close> being the accumulator.\<close>

fun processLoop :: "Services \<Rightarrow> File list \<Rightarrow> doc list \<Rightarrow> doc list" where
  "processLoop sv [] allData = allData"
| "processLoop sv (file # rest) allData = processLoop sv rest (allData @ [processFile sv file])"

text \<open>
  The date string a document is sorted by:
  \<open>'fechaRegistro' in a ? a.fechaRegistro : ('fecha' in a ? a.fecha : '')\<close>.
\<close>

definition sortField :: "doc \<Rightarrow> string" where
  "sortField a =
     (case getProp a ''fechaRegistro'' of
        Some v \<Rightarrow> v
      | None \<Rightarrow> (case getProp a ''fecha'' of Some v \<Rightarrow> v | None \<Rightarrow> []))"

definition sortKey :: "bool \<Rightarrow> doc \<Rightarrow> jsnum" where
  "sortKey rollover a = parseSortableDate rollover (sortField a)"

text \<open>The comparator of line 229: \<open>dateA - dateB\<close>.\<close>

definition compareDocs :: "bool \<Rightarrow> doc \<Rightarrow> doc \<Rightarrow> jsnum" where
  "compareDocs rollover a b = jsSub (sortKey rollover a) (sortKey rollover b)"

definition isFailure :: "doc \<Rightarrow> bool" where
  "isFailure d = (getProp d ''orden'' = Some failureMarker)"

definition successCount :: "doc list \<Rightarrow> nat" where
  "successCount allData = length (filter (\<lambda>d. \<not> isFailure d) allData)"

definition failCount :: "doc list \<Rightarrow> nat" where
  "failCount allData = length allData - successCount allData"

text \<open>
  The handler: nothing but a toast for an empty selection; otherwise the state published at
  the end is the sorted accumulator.
\<close>

definition handleProcessFiles :: "bool \<Rightarrow> Services \<Rightarrow> AppState \<Rightarrow> AppState" where
  "handleProcessFiles rollover sv st =
     (if length (files st) = 0 then st
      else
        (let allData = processLoop sv (files st) [];
             sortedData = jsSort (compareDocs rollover) allData
         in st\<lparr>processedData := sortedData\<rparr>))"

section \<open>\<open>handleRetryFile\<close> (App.tsx, lines 245 to 350)\<close>

text \<open>
  First the handler when nothing else writes to the state while it runs: the sequence it
  reads \<open>docToRetry\<close> from is the sequence its updater rewrites. An index outside the sequence makes
  \<open>docToRetry.originalFileName\<close> throw before anything is written. When no file carries the
  recorded name the handler returns. Otherwise slot \<open>index\<close> receives the new record, or,
  from the \<open>catch\<close>, a copy of the record it holds with \<open>error\<close> assigned.
\<close>

definition handleRetryFile :: "Services \<Rightarrow> AppState \<Rightarrow> nat \<Rightarrow> AppState" where
  "handleRetryFile sv st index =
     (if index < length (processedData st) then
        (let docToRetry = processedData st ! index in
         case find (\<lambda>f. Some (name f) = getProp docToRetry ''originalFileName'') (files st) of
           None \<Rightarrow> st
         | Some originalFile \<Rightarrow>
             (case classifyAndExtract sv retryUnknownMessage originalFile of
                Inr newData \<Rightarrow> st\<lparr>processedData := (processedData st)[index := newData]\<rparr>
              | Inl err \<Rightarrow>
                  (let errorMessage = orElse err retryFallbackMessage;
                       failedDoc = setProp ''error'' errorMessage (processedData st ! index)
                   in st\<lparr>processedData := (processedData st)[index := failedDoc]\<rparr>)))
      else st)"

text \<open>
  The same handler with the two states it works on. \<open>captured\<close> is the state the callback
  closed over when the retry was clicked: \<open>processedData[index]\<close> (line 247) and \<open>files\<close>
  (line 248) are read from it. \<open>prevData\<close> is the sequence the updater receives after the
  awaits (lines 332 to 346); the batch or another handler may have rewritten it in between.
  The result is the array the updater returns. An assignment beyond the end of a
  JavaScript array extends it and leaves holes, here \<open>None\<close>; the spread of the missing
  element is the empty object.
\<close>

definition jsArraySet :: "'a list \<Rightarrow> nat \<Rightarrow> 'a \<Rightarrow> 'a option list" where
  "jsArraySet xs i v =
     (if i < length xs then (map Some xs)[i := Some v]
      else map Some xs @ replicate (i - length xs) None @ [Some v])"

text \<open>The elements of an array, holes skipped, as \<open>filter\<close> and \<open>map\<close> visit them.\<close>

definition arrayDocs :: "'a option list \<Rightarrow> 'a list" where
  "arrayDocs xs = concat (map (\<lambda>x. case x of Some d \<Rightarrow> [d] | None \<Rightarrow> []) xs)"

definition handleRetryFileUpdate :: "Services \<Rightarrow> AppState \<Rightarrow> nat \<Rightarrow> doc list \<Rightarrow> doc option list" where
  "handleRetryFileUpdate sv captured index prevData =
     (if index < length (processedData captured) then
        (let docToRetry = processedData captured ! index in
         case find (\<lambda>f. Some (name f) = getProp docToRetry ''originalFileName'') (files captured) of
           None \<Rightarrow> map Some prevData
         | Some originalFile \<Rightarrow>
             (case classifyAndExtract sv retryUnknownMessage originalFile of
                Inr newData \<Rightarrow> jsArraySet prevData index newData
              | Inl err \<Rightarrow>
                  (let errorMessage = orElse err retryFallbackMessage;
                       failedDoc = setProp ''error'' errorMessage
                                     (if index < length prevData then prevData ! index else [])
                   in jsArraySet prevData index failedDoc)))
      else map Some prevData)"

section \<open>\<open>handleDataUpdate\<close> (App.tsx, lines 112 to 124)\<close>

text \<open>
  \<open>captured\<close> is the value of \<open>processedData\<close> the callback closed over when it was
  created; \<open>prevData\<close> is the state the updater receives when it runs. \<open>documentType\<close> is
  \<open>previewModalState.documentType\<close>, \<open>None\<close> for \<open>null\<close>.
\<close>

definition dataForModal :: "string option \<Rightarrow> doc list \<Rightarrow> doc list" where
  "dataForModal documentType docs =
     (case documentType of
        Some t \<Rightarrow> filter (\<lambda>d. getProp d ''type'' = Some t) docs
      | None \<Rightarrow> [])"

definition handleDataUpdate ::
  "doc list \<Rightarrow> string option \<Rightarrow> nat \<Rightarrow> string \<Rightarrow> string \<Rightarrow> doc list \<Rightarrow> doc list" where
  "handleDataUpdate captured documentType index field val prevData =
     (let modal = dataForModal documentType captured;
          target = (if index < length modal then getProp (modal ! index) ''originalFileName''
                    else None)
      in case findIndex (\<lambda>item. getProp item ''originalFileName'' = target) prevData of
           Some originalIndex \<Rightarrow>
             prevData[originalIndex := setProp field val (prevData ! originalIndex)]
         | None \<Rightarrow> prevData)"

section \<open>\<open>handleExportAll\<close> and \<open>handleDownloadZip\<close> (App.tsx, lines 352 to 395)\<close>

definition exportList :: "string \<Rightarrow> doc list \<Rightarrow> doc list" where
  "exportList t docs =
     filter (\<lambda>d. getProp d ''type'' = Some t \<and> \<not> isFailure d) docs"

text \<open>The four lists handed to \<open>exportToExcel\<close>, or \<open>None\<close> when it is not called.\<close>

definition handleExportAll :: "AppState \<Rightarrow> (doc list \<times> doc list \<times> doc list \<times> doc list) option" where
  "handleExportAll st =
     (let workOrders = exportList ''workOrder'' (processedData st);
          supplyRequests = exportList ''supplyRequest'' (processedData st);
          uninstallations = exportList ''uninstallation'' (processedData st);
          installations = exportList ''installation'' (processedData st)
      in if workOrders \<noteq> [] \<or> supplyRequests \<noteq> [] \<or> uninstallations \<noteq> [] \<or> installations \<noteq> []
         then Some (workOrders, supplyRequests, uninstallations, installations)
         else None)"

text \<open>
  The calls \<open>zip.file(doc.archivo, originalFile)\<close> in order, or \<open>None\<close> when the handler
  returns before creating the archive.
\<close>

definition zipEntries :: "File list \<Rightarrow> doc list \<Rightarrow> (string option \<times> File) list" where
  "zipEntries fs dataToZip =
     concat (map (\<lambda>d.
        if \<not> isFailure d then
          (case find (\<lambda>f. Some (name f) = getProp d ''originalFileName'') fs of
             Some originalFile \<Rightarrow> [(getProp d ''archivo'', originalFile)]
           | None \<Rightarrow> [])
        else []) dataToZip)"

definition handleDownloadZip :: "AppState \<Rightarrow> string \<Rightarrow> (string option \<times> File) list option" where
  "handleDownloadZip st docType =
     (let dataToZip = exportList docType (processedData st)
      in if length dataToZip = 0 then None
         else Some (zipEntries (files st) dataToZip))"

section \<open>Notions used to state the properties\<close>

text \<open>The result sequence is ordered ascending by the sortable date.\<close>

definition sortedByDate :: "bool \<Rightarrow> doc list \<Rightarrow> bool" where
  "sortedByDate rollover ds = sorted_wrt (\<lambda>a b. jsLessEq (sortKey rollover a) (sortKey rollover b)) ds"

text \<open>
  The sortable date as the specification words it, to be compared with
  \<open>parseSortableDate\<close>: a string of two digits, a separator, two digits, the same
  separator and two digits is a date of the year \<open>20YY\<close>, read as month, day, year when
  the separator is \<open>/\<close> and as day, month, year when it is \<open>-\<close>; its key is the time stamp
  of that day. Every other string, and every date \<open>Date\<close> does not accept, has the key
  \<open>Infinity\<close>.
\<close>

definition calendarKey :: "bool \<Rightarrow> int \<Rightarrow> nat \<Rightarrow> nat \<Rightarrow> jsnum" where
  "calendarKey rollover y m d =
     (case dateOnlyTime rollover y m d of Some t \<Rightarrow> Num t | None \<Rightarrow> Infinity)"

fun specSortableDate :: "bool \<Rightarrow> string \<Rightarrow> jsnum" where
  "specSortableDate rollover [a, b, s1, c, d, s2, e, f] =
     (if isDigit a \<and> isDigit b \<and> isDigit c \<and> isDigit d \<and> isDigit e \<and> isDigit f then
        (if s1 = CHR ''/'' \<and> s2 = CHR ''/'' then
           calendarKey rollover (2000 + int (twoDigits e f)) (twoDigits a b) (twoDigits c d)
         else if s1 = CHR ''-'' \<and> s2 = CHR ''-'' then
           calendarKey rollover (2000 + int (twoDigits e f)) (twoDigits c d) (twoDigits a b)
         else Infinity)
      else Infinity)"
| "specSortableDate rollover _ = Infinity"

text \<open>
  The date string of the record the extractor returns for a file: \<open>fechaRegistro\<close> of a
  work order or supply request, \<open>fecha\<close> of an uninstallation or installation; none when
  the file fails.
\<close>

definition extractedDate :: "Services \<Rightarrow> File \<Rightarrow> string option" where
  "extractedDate sv file =
     (case fileToBase64 sv file of
        Inl _ \<Rightarrow> None
      | Inr base64String \<Rightarrow>
          (case classifyDocument sv base64String of
             Unknown \<Rightarrow> None
           | WorkOrder \<Rightarrow>
               (case extractWorkOrderDataFromPdf sv base64String of
                  Inl _ \<Rightarrow> None | Inr e \<Rightarrow> Some (ExtractedWorkOrderData.fechaRegistro e))
           | SupplyRequest \<Rightarrow>
               (case extractSupplyDataFromPdf sv base64String of
                  Inl _ \<Rightarrow> None | Inr e \<Rightarrow> Some (ExtractedSupplyData.fechaRegistro e))
           | Uninstallation \<Rightarrow>
               (case extractUninstallationDataFromPdf sv base64String of
                  Inl _ \<Rightarrow> None | Inr e \<Rightarrow> Some (ExtractedUninstallationData.fecha e))
           | Installation \<Rightarrow>
               (case extractInstallationDataFromPdf sv base64String of
                  Inl _ \<Rightarrow> None | Inr e \<Rightarrow> Some (ExtractedInstallationData.fecha e))))"

text \<open>The date a file is to be sorted by; a file that fails sorts last.\<close>

definition fileSortDate :: "bool \<Rightarrow> Services \<Rightarrow> File \<Rightarrow> jsnum" where
  "fileSortDate rollover sv file =
     (case extractedDate sv file of
        Some s \<Rightarrow> specSortableDate rollover s
      | None \<Rightarrow> Infinity)"

text \<open>
  What the services answer for one file: the message of the error the matching extractor
  raises, and the primary identifier (\<open>orden\<close> or \<open>folio\<close>) of the record it returns.
\<close>

definition extractorError :: "Services \<Rightarrow> string \<Rightarrow> string option" where
  "extractorError sv base64String =
     (case classifyDocument sv base64String of
        Unknown \<Rightarrow> None
      | WorkOrder \<Rightarrow>
          (case extractWorkOrderDataFromPdf sv base64String of Inl err \<Rightarrow> Some err | Inr _ \<Rightarrow> None)
      | SupplyRequest \<Rightarrow>
          (case extractSupplyDataFromPdf sv base64String of Inl err \<Rightarrow> Some err | Inr _ \<Rightarrow> None)
      | Uninstallation \<Rightarrow>
          (case extractUninstallationDataFromPdf sv base64String of
             Inl err \<Rightarrow> Some err | Inr _ \<Rightarrow> None)
      | Installation \<Rightarrow>
          (case extractInstallationDataFromPdf sv base64String of
             Inl err \<Rightarrow> Some err | Inr _ \<Rightarrow> None))"

definition extractedIdent :: "Services \<Rightarrow> File \<Rightarrow> string option" where
  "extractedIdent sv file =
     (case fileToBase64 sv file of
        Inl _ \<Rightarrow> None
      | Inr base64String \<Rightarrow>
          (case classifyDocument sv base64String of
             Unknown \<Rightarrow> None
           | WorkOrder \<Rightarrow>
               (case extractWorkOrderDataFromPdf sv base64String of
                  Inl _ \<Rightarrow> None | Inr e \<Rightarrow> Some (ExtractedWorkOrderData.orden e))
           | SupplyRequest \<Rightarrow>
               (case extractSupplyDataFromPdf sv base64String of
                  Inl _ \<Rightarrow> None | Inr e \<Rightarrow> Some (ExtractedSupplyData.orden e))
           | Uninstallation \<Rightarrow>
               (case extractUninstallationDataFromPdf sv base64String of
                  Inl _ \<Rightarrow> None | Inr e \<Rightarrow> Some (ExtractedUninstallationData.folio e))
           | Installation \<Rightarrow>
               (case extractInstallationDataFromPdf sv base64String of
                  Inl _ \<Rightarrow> None | Inr e \<Rightarrow> Some (ExtractedInstallationData.folio e))))"

text \<open>No file of the list has the failure marker extracted as its identifier.\<close>

definition markerFree :: "Services \<Rightarrow> File list \<Rightarrow> bool" where
  "markerFree sv fs = list_all (\<lambda>f. extractedIdent sv f \<noteq> Some failureMarker) fs"

text \<open>\<open>error\<close> is present if and only if \<open>orden\<close> is the failure marker.\<close>

definition errorIffMarker :: "doc \<Rightarrow> bool" where
  "errorIffMarker d = (hasProp ''error'' d = isFailure d)"

text \<open>For an installation or uninstallation document, \<open>link\<close> equals \<open>archivo\<close>.\<close>

definition linkIsArchivo :: "doc \<Rightarrow> bool" where
  "linkIsArchivo d =
     (if getProp d ''type'' = Some ''installation'' \<or> getProp d ''type'' = Some ''uninstallation''
      then getProp d ''link'' = getProp d ''archivo'' \<and> getProp d ''link'' \<noteq> None
      else True)"

subsection \<open>Example inputs\<close>

text \<open>
  Services that classify a file by its content: \<open>w\<close>, \<open>s\<close>, \<open>u\<close>, \<open>i\<close> for the four types,
  anything else unknown. The uninstallation extractor raises.
\<close>

definition exampleServices :: Services where
  "exampleServices =
     \<lparr>fileToBase64 = (\<lambda>f. Inr (content f)),
      classifyDocument = (\<lambda>b. if b = ''w'' then WorkOrder else if b = ''s'' then SupplyRequest
                               else if b = ''u'' then Uninstallation
                               else if b = ''i'' then Installation else Unknown),
      extractWorkOrderDataFromPdf = (\<lambda>b. Inr
         \<lparr>ExtractedWorkOrderData.orden = ''1001'', ExtractedWorkOrderData.serie = ''S1'',
          ExtractedWorkOrderData.fechaRegistro = ''01-02-24'', categoria = ''CORRECTIVO'',
          descripcion = ''x'', fechaCierre = ''02-02-24''\<rparr>),
      extractSupplyDataFromPdf = (\<lambda>b. Inr
         \<lparr>ExtractedSupplyData.orden = [], ExtractedSupplyData.serie = ''S2'',
          ExtractedSupplyData.fechaRegistro = ''01/15/24'', ExtractedSupplyData.contadorBN = ''7'',
          fechaEntrega = ''01/16/24''\<rparr>),
      extractUninstallationDataFromPdf = (\<lambda>b. Inl ''Unexpected token''),
      extractInstallationDataFromPdf = (\<lambda>b. Inr
         \<lparr>ExtractedInstallationData.folio = ''FOL123'', ExtractedInstallationData.serie = ''S4'',
          ExtractedInstallationData.fecha = ''03/01/24'', ExtractedInstallationData.contadorBN = ''9'',
          ExtractedInstallationData.comentarios = []\<rparr>)\<rparr>"

text \<open>The same services when every classification answers \<open>'unknown'\<close>.\<close>

definition unknownServices :: Services where
  "unknownServices = exampleServices\<lparr>classifyDocument := (\<lambda>b. Unknown)\<rparr>"

text \<open>Services whose supply extractor reads the failure marker as the order number.\<close>

definition markerServices :: Services where
  "markerServices = exampleServices\<lparr>extractSupplyDataFromPdf := (\<lambda>b. Inr
         \<lparr>ExtractedSupplyData.orden = ''Fallo de Procesamiento'', ExtractedSupplyData.serie = ''S2'',
          ExtractedSupplyData.fechaRegistro = ''01/15/24'', ExtractedSupplyData.contadorBN = ''7'',
          fechaEntrega = ''01/16/24''\<rparr>)\<rparr>"

text \<open>Services whose installation extractor raises an error with an empty message.\<close>

definition silentServices :: Services where
  "silentServices = exampleServices\<lparr>extractInstallationDataFromPdf := (\<lambda>b. Inl [])\<rparr>"

definition fileA :: File where "fileA = \<lparr>name = ''a.pdf'', content = ''w''\<rparr>"
definition fileB :: File where "fileB = \<lparr>name = ''b.pdf'', content = ''u''\<rparr>"
definition fileC :: File where "fileC = \<lparr>name = ''c.pdf'', content = ''s''\<rparr>"
definition fileD :: File where "fileD = \<lparr>name = ''d.pdf'', content = ''i''\<rparr>"
definition fileE :: File where "fileE = \<lparr>name = ''e.pdf'', content = ''x''\<rparr>"

definition exampleState :: AppState where
  "exampleState = \<lparr>files = [fileA, fileB, fileC], processedData = []\<rparr>"

text \<open>The example services once the uninstallation extractor answers.\<close>

definition repairedServices :: Services where
  "repairedServices = exampleServices\<lparr>extractUninstallationDataFromPdf := (\<lambda>b. Inr
         \<lparr>ExtractedUninstallationData.folio = ''U77'', ExtractedUninstallationData.serie = ''S3'',
          ExtractedUninstallationData.fecha = ''02/10/24'',
          ExtractedUninstallationData.contadorBN = ''5'', contadorColor = ''6'',
          contadorEscaner = ''8'', ExtractedUninstallationData.comentarios = []\<rparr>)\<rparr>"

text \<open>The state after the batch over the example files: \<open>c.pdf\<close>, \<open>a.pdf\<close>, then the failed \<open>b.pdf\<close>.\<close>

definition processedExample :: AppState where
  "processedExample = handleProcessFiles False exampleServices exampleState"

text \<open>The state after a batch of two files that both fail: \<open>b.pdf\<close>, then \<open>e.pdf\<close>.\<close>

definition twoFailures :: AppState where
  "twoFailures =
     handleProcessFiles False exampleServices \<lparr>files = [fileB, fileE], processedData = []\<rparr>"

text \<open>
  The state after a batch of the one file \<open>c.pdf\<close> when the supply extractor reads the
  marker text as the order number.
\<close>

definition markerBatch :: AppState where
  "markerBatch = handleProcessFiles False markerServices \<lparr>files = [fileC], processedData = []\<rparr>"

text \<open>
  Four files in the order failing uninstallation, installation of 1 March 2024, work order
  of 1 February 2024, supply request of 15 January 2024.
\<close>

definition datedState :: AppState where
  "datedState = \<lparr>files = [fileB, fileD, fileA, fileC], processedData = []\<rparr>"

text \<open>
  A batch over \<open>b.pdf\<close>, which fails, and the work order \<open>a.pdf\<close>: the state published
  after the second file, before the sort (line 225), and the state published at the end.
\<close>

definition batchBeforeSort :: AppState where
  "batchBeforeSort =
     \<lparr>files = [fileB, fileA], processedData = processLoop exampleServices [fileB, fileA] []\<rparr>"

definition batchAfterSort :: AppState where
  "batchAfterSort =
     handleProcessFiles False exampleServices \<lparr>files = [fileB, fileA], processedData = []\<rparr>"

section \<open>Case analysis of the shared \<open>try\<close> body\<close>

text \<open>The seven ways through \<open>classifyAndExtract\<close>.\<close>

lemma classifyAndExtract_cases:
  obtains (encodeError) err where "fileToBase64 sv f = Inl err"
      "classifyAndExtract sv m f = Inl err" "extractedIdent sv f = None"
  | (unknown) b where "fileToBase64 sv f = Inr b" "classifyDocument sv b = Unknown"
      "classifyAndExtract sv m f = Inl m" "extractedIdent sv f = None"
  | (extractError) b err where "fileToBase64 sv f = Inr b" "extractorError sv b = Some err"
      "classifyAndExtract sv m f = Inl err" "extractedIdent sv f = None"
  | (workOrder) b e where "fileToBase64 sv f = Inr b" "classifyDocument sv b = WorkOrder"
      "extractWorkOrderDataFromPdf sv b = Inr e"
      "classifyAndExtract sv m f = Inr (workOrderDoc e (name f))"
      "extractedIdent sv f = Some (ExtractedWorkOrderData.orden e)"
  | (supplyRequest) b e where "fileToBase64 sv f = Inr b" "classifyDocument sv b = SupplyRequest"
      "extractSupplyDataFromPdf sv b = Inr e"
      "classifyAndExtract sv m f = Inr (supplyRequestDoc e (name f))"
      "extractedIdent sv f = Some (ExtractedSupplyData.orden e)"
  | (uninstallation) b e where "fileToBase64 sv f = Inr b" "classifyDocument sv b = Uninstallation"
      "extractUninstallationDataFromPdf sv b = Inr e"
      "classifyAndExtract sv m f = Inr (uninstallationDoc e (name f))"
      "extractedIdent sv f = Some (ExtractedUninstallationData.folio e)"
  | (installation) b e where "fileToBase64 sv f = Inr b" "classifyDocument sv b = Installation"
      "extractInstallationDataFromPdf sv b = Inr e"
      "classifyAndExtract sv m f = Inr (installationDoc e (name f))"
      "extractedIdent sv f = Some (ExtractedInstallationData.folio e)"
proof (cases "fileToBase64 sv f")
  case (Inl err)
  then show ?thesis
    by (intro encodeError [of err]) (simp_all add: classifyAndExtract_def extractedIdent_def)
next
  case (Inr b)
  show ?thesis
  proof (cases "classifyDocument sv b")
    case Unknown
    with Inr show ?thesis
      by (intro unknown [of b]) (simp_all add: classifyAndExtract_def extractedIdent_def)
  next
    case WorkOrder
    show ?thesis
    proof (cases "extractWorkOrderDataFromPdf sv b")
      case (Inl err)
      with Inr WorkOrder show ?thesis
        by (intro extractError [of b err])
          (simp_all add: classifyAndExtract_def extractedIdent_def extractorError_def)
    next
      case (Inr e)
      with \<open>fileToBase64 sv f = Inr b\<close> WorkOrder show ?thesis
        by (intro workOrder [of b e]) (simp_all add: classifyAndExtract_def extractedIdent_def)
    qed
  next
    case SupplyRequest
    show ?thesis
    proof (cases "extractSupplyDataFromPdf sv b")
      case (Inl err)
      with Inr SupplyRequest show ?thesis
        by (intro extractError [of b err])
          (simp_all add: classifyAndExtract_def extractedIdent_def extractorError_def)
    next
      case (Inr e)
      with \<open>fileToBase64 sv f = Inr b\<close> SupplyRequest show ?thesis
        by (intro supplyRequest [of b e]) (simp_all add: classifyAndExtract_def extractedIdent_def)
    qed
  next
    case Uninstallation
    show ?thesis
    proof (cases "extractUninstallationDataFromPdf sv b")
      case (Inl err)
      with Inr Uninstallation show ?thesis
        by (intro extractError [of b err])
          (simp_all add: classifyAndExtract_def extractedIdent_def extractorError_def)
    next
      case (Inr e)
      with \<open>fileToBase64 sv f = Inr b\<close> Uninstallation show ?thesis
        by (intro uninstallation [of b e]) (simp_all add: classifyAndExtract_def extractedIdent_def)
    qed
  next
    case Installation
    show ?thesis
    proof (cases "extractInstallationDataFromPdf sv b")
      case (Inl err)
      with Inr Installation show ?thesis
        by (intro extractError [of b err])
          (simp_all add: classifyAndExtract_def extractedIdent_def extractorError_def)
    next
      case (Inr e)
      with \<open>fileToBase64 sv f = Inr b\<close> Installation show ?thesis
        by (intro installation [of b e]) (simp_all add: classifyAndExtract_def extractedIdent_def)
    qed
  qed
qed

lemmas doc_defs = workOrderDoc_def supplyRequestDoc_def uninstallationDoc_def installationDoc_def

lemma classifyAndExtract_Inr:
  assumes "classifyAndExtract sv m f = Inr d"
  shows "\<not> hasProp ''error'' d \<and> getProp d ''orden'' = extractedIdent sv f
         \<and> extractedIdent sv f \<noteq> None"
  by (rule classifyAndExtract_cases [where sv = sv and m = m and f = f])
    (use assms in \<open>auto simp: hasProp_def getProp_def doc_defs Let_def\<close>)

lemma classifyAndExtract_Inl:
  "classifyAndExtract sv m f = Inl err \<Longrightarrow> extractedIdent sv f = None"
  by (rule classifyAndExtract_cases [where sv = sv and m = m and f = f]) simp_all

lemma errorIffMarker_failureDoc: "errorIffMarker (failureDoc n m)"
  by (simp add: errorIffMarker_def hasProp_def isFailure_def getProp_def failureDoc_def)

section \<open>Properties of \<open>parseSortableDate\<close>\<close>

lemma length8_conv: "length s = 8 \<Longrightarrow> \<exists>a b c d e f g h. s = [a, b, c, d, e, f, g, h]"
  by (auto simp: numeral_eq_Suc length_Suc_conv)

lemma isDigit_not_sep: "isDigit c \<Longrightarrow> c \<noteq> CHR ''/'' \<and> c \<noteq> CHR ''-''"
  by (auto simp: isDigit_def)

lemma split_testDatePattern:
  assumes "testDatePattern sep s" and "sep = CHR ''/'' \<or> sep = CHR ''-''"
  shows "split sep s = [[s ! 0, s ! 1], [s ! 3, s ! 4], [s ! 6, s ! 7]]"
proof -
  from assms(1) have "length s = 8" by (simp add: testDatePattern_def)
  then obtain a b c d e f g h where s: "s = [a, b, c, d, e, f, g, h]"
    using length8_conv by blast
  with assms show ?thesis
    by (auto simp: testDatePattern_def dest: isDigit_not_sep)
qed

lemma isDigit_2_0: "isDigit (CHR ''2'')" "isDigit (CHR ''0'')"
  by (simp_all add: isDigit_def)

lemma twoDigits_20: "twoDigits (CHR ''2'') (CHR ''0'') = 20"
  by (simp add: twoDigits_def digitVal_def)

lemma newDateGetTime_iso:
  assumes "isDigit a" "isDigit b" "isDigit c" "isDigit d" "isDigit e" "isDigit f"
  shows "newDateGetTime r (''20'' @ [a, b] @ ''-'' @ [c, d] @ ''-'' @ [e, f]) =
         dateOnlyTime r (2000 + int (twoDigits a b)) (twoDigits c d) (twoDigits e f)"
  using assms by (simp add: newDateGetTime_def isDigit_2_0 twoDigits_20)

lemma trySlash_eq:
  "trySlash r s =
     (if testDatePattern (CHR ''/'') s
      then dateOnlyTime r (2000 + int (twoDigits (s ! 6) (s ! 7)))
             (twoDigits (s ! 0) (s ! 1)) (twoDigits (s ! 3) (s ! 4))
      else None)"
proof (cases "testDatePattern (CHR ''/'') s")
  case True
  then have d: "isDigit (s ! 0)" "isDigit (s ! 1)" "isDigit (s ! 3)" "isDigit (s ! 4)"
    "isDigit (s ! 6)" "isDigit (s ! 7)"
    by (simp_all add: testDatePattern_def)
  show ?thesis
    using True newDateGetTime_iso [OF d(5) d(6) d(1) d(2) d(3) d(4), of r]
    by (simp add: trySlash_def split_testDatePattern)
next
  case False
  then show ?thesis by (simp add: trySlash_def)
qed

lemma tryDash_eq:
  "tryDash r s =
     (if testDatePattern (CHR ''-'') s
      then dateOnlyTime r (2000 + int (twoDigits (s ! 6) (s ! 7)))
             (twoDigits (s ! 3) (s ! 4)) (twoDigits (s ! 0) (s ! 1))
      else None)"
proof (cases "testDatePattern (CHR ''-'') s")
  case True
  then have d: "isDigit (s ! 0)" "isDigit (s ! 1)" "isDigit (s ! 3)" "isDigit (s ! 4)"
    "isDigit (s ! 6)" "isDigit (s ! 7)"
    by (simp_all add: testDatePattern_def)
  show ?thesis
    using True newDateGetTime_iso [OF d(5) d(6) d(3) d(4) d(1) d(2), of r]
    by (simp add: tryDash_def split_testDatePattern)
next
  case False
  then show ?thesis by (simp add: tryDash_def)
qed

lemma patterns_exclusive: "testDatePattern (CHR ''/'') s \<Longrightarrow> \<not> testDatePattern (CHR ''-'') s"
  by (auto simp: testDatePattern_def)

lemma daysInMonth_le_31: "daysInMonth y m \<le> 31"
  by (simp add: daysInMonth_def)

lemma testDatePattern_nonempty: "testDatePattern sep s \<Longrightarrow> s \<noteq> []"
  by (auto simp: testDatePattern_def)

text \<open>
  Claim C4, as the code has it. \<open>parseSortableDate\<close> answers \<open>Infinity\<close> for the empty
  string and for every string that matches neither \<open>MM/DD/YY\<close> nor \<open>DD-MM-YY\<close>. A string
  that matches one of the two is read with the year \<open>20YY\<close> and the month and day in the
  order of its pattern; the result is the time stamp \<open>Date\<close> gives that day, and
  \<open>Infinity\<close> exactly when \<open>Date\<close> does not accept it. \<open>Date\<close> rejects exactly a month
  outside 1..12, a day outside 1..31 and, on the engines that do not roll over, a day
  beyond the length of the month; an engine that rolls over accepts every day up to 31 and
  counts it on from the first of the month. \<open>"01/15/24"\<close> is 15 January 2024 and
  \<open>"20-01-24"\<close> is 20 January 2024, so the first key is strictly smaller.
\<close>

theorem parseSortableDate_two_patterns:
  "parseSortableDate r [] = Infinity
   \<and> (\<not> testDatePattern (CHR ''/'') s \<and> \<not> testDatePattern (CHR ''-'') s
        \<longrightarrow> parseSortableDate r s = Infinity)
   \<and> (testDatePattern (CHR ''/'') s \<longrightarrow>
        parseSortableDate r s =
          (case dateOnlyTime r (2000 + int (twoDigits (s ! 6) (s ! 7)))
                  (twoDigits (s ! 0) (s ! 1)) (twoDigits (s ! 3) (s ! 4)) of
             Some t \<Rightarrow> Num t | None \<Rightarrow> Infinity))
   \<and> (testDatePattern (CHR ''-'') s \<longrightarrow>
        parseSortableDate r s =
          (case dateOnlyTime r (2000 + int (twoDigits (s ! 6) (s ! 7)))
                  (twoDigits (s ! 3) (s ! 4)) (twoDigits (s ! 0) (s ! 1)) of
             Some t \<Rightarrow> Num t | None \<Rightarrow> Infinity))
   \<and> (dateOnlyTime r y m d = None)
       = (m < 1 \<or> 12 < m \<or> d < 1 \<or> 31 < d \<or> (\<not> r \<and> daysInMonth y m < d))
   \<and> (r \<and> 1 \<le> m \<and> m \<le> 12 \<and> 1 \<le> d \<and> d \<le> 31 \<longrightarrow>
        dateOnlyTime r y m d
          = Some ((DayFromYear y + int (daysBeforeMonth y m) + int d - 1) * 86400000))
   \<and> parseSortableDate r ''01/15/24'' = Num 1705276800000
   \<and> parseSortableDate r ''20-01-24'' = Num 1705708800000
   \<and> jsLess (parseSortableDate r ''01/15/24'') (parseSortableDate r ''20-01-24'')"
proof -
  have A: "parseSortableDate r [] = Infinity"
    by (simp add: parseSortableDate_def)
  have B: "\<not> testDatePattern (CHR ''/'') s \<and> \<not> testDatePattern (CHR ''-'') s
        \<longrightarrow> parseSortableDate r s = Infinity"
    by (simp add: parseSortableDate_def trySlash_eq tryDash_eq)
  have C: "testDatePattern (CHR ''/'') s \<longrightarrow>
        parseSortableDate r s =
          (case dateOnlyTime r (2000 + int (twoDigits (s ! 6) (s ! 7)))
                  (twoDigits (s ! 0) (s ! 1)) (twoDigits (s ! 3) (s ! 4)) of
             Some t \<Rightarrow> Num t | None \<Rightarrow> Infinity)"
    by (auto simp: parseSortableDate_def trySlash_eq tryDash_eq
        dest: patterns_exclusive testDatePattern_nonempty split: option.splits)
  have D: "testDatePattern (CHR ''-'') s \<longrightarrow>
        parseSortableDate r s =
          (case dateOnlyTime r (2000 + int (twoDigits (s ! 6) (s ! 7)))
                  (twoDigits (s ! 3) (s ! 4)) (twoDigits (s ! 0) (s ! 1)) of
             Some t \<Rightarrow> Num t | None \<Rightarrow> Infinity)"
    by (auto simp: parseSortableDate_def trySlash_eq tryDash_eq
        dest: patterns_exclusive testDatePattern_nonempty split: option.splits)
  have E: "(dateOnlyTime r y m d = None)
       = (m < 1 \<or> 12 < m \<or> d < 1 \<or> 31 < d \<or> (\<not> r \<and> daysInMonth y m < d))"
    using daysInMonth_le_31 [of y m] by (auto simp: dateOnlyTime_def)
  have E': "r \<and> 1 \<le> m \<and> m \<le> 12 \<and> 1 \<le> d \<and> d \<le> 31 \<longrightarrow>
        dateOnlyTime r y m d
          = Some ((DayFromYear y + int (daysBeforeMonth y m) + int d - 1) * 86400000)"
    by (simp add: dateOnlyTime_def msPerDay_def)
  have F1: "parseSortableDate r ''01/15/24'' = Num 1705276800000"
    by (simp add: parseSortableDate_def trySlash_eq testDatePattern_def isDigit_def
        dateOnlyTime_def twoDigits_def digitVal_def daysInMonth_def InLeapYear_def
        DayFromYear_def msPerDay_def)
  have F2: "parseSortableDate r ''20-01-24'' = Num 1705708800000"
    by (simp add: parseSortableDate_def trySlash_eq tryDash_eq testDatePattern_def isDigit_def
        dateOnlyTime_def twoDigits_def digitVal_def daysInMonth_def InLeapYear_def
        DayFromYear_def msPerDay_def)
  have F3: "jsLess (parseSortableDate r ''01/15/24'') (parseSortableDate r ''20-01-24'')"
    by (simp add: F1 F2)
  from A B C D E E' F1 F2 F3 show ?thesis by blast
qed

text \<open>
  The theorem at five inputs: a string of neither pattern, 9 March 2025 in both patterns,
  a month 13 and a 30 February. On an engine that rolls the day over, 30 February 2025 is
  read as the valid date 2 March 2025.
\<close>

theorem parseSortableDate_two_patterns_witness:
  "parseSortableDate False ''2024-01-15'' = Infinity
   \<and> parseSortableDate False ''03/09/25'' = Num 1741478400000
   \<and> parseSortableDate False ''09-03-25'' = Num 1741478400000
   \<and> parseSortableDate False ''13/09/25'' = Infinity
   \<and> parseSortableDate False ''30-02-25'' = Infinity
   \<and> parseSortableDate True ''30-02-25'' = Num 1740873600000"
proof -
  have s: "testDatePattern (CHR ''/'') ''03/09/25''" "testDatePattern (CHR ''/'') ''13/09/25''"
    "\<not> testDatePattern (CHR ''/'') ''2024-01-15''" "\<not> testDatePattern (CHR ''-'') ''2024-01-15''"
    "testDatePattern (CHR ''-'') ''09-03-25''" "testDatePattern (CHR ''-'') ''30-02-25''"
    by (simp_all add: testDatePattern_def isDigit_def)
  have t: "dateOnlyTime False 2025 3 9 = Some 1741478400000"
    by (simp add: dateOnlyTime_def daysInMonth_def InLeapYear_def DayFromYear_def msPerDay_def
        numeral_eq_Suc)
  have t': "dateOnlyTime True 2025 2 30 = Some 1740873600000"
    by (simp add: dateOnlyTime_def daysInMonth_def InLeapYear_def DayFromYear_def msPerDay_def
        numeral_eq_Suc)
  have n: "daysInMonth 2025 2 < 30" "twoDigits (CHR ''0'') (CHR ''3'') = 3"
    "twoDigits (CHR ''0'') (CHR ''9'') = 9" "twoDigits (CHR ''2'') (CHR ''5'') = 25"
    "twoDigits (CHR ''1'') (CHR ''3'') = 13" "twoDigits (CHR ''3'') (CHR ''0'') = 30"
    "twoDigits (CHR ''0'') (CHR ''2'') = 2"
    by (simp_all add: daysInMonth_def InLeapYear_def twoDigits_def digitVal_def)
  show ?thesis
    using parseSortableDate_two_patterns
        [where r = False and s = "''2024-01-15''" and y = 0 and m = 0 and d = 0]
      parseSortableDate_two_patterns
        [where r = False and s = "''03/09/25''" and y = 2025 and m = 3 and d = 9]
      parseSortableDate_two_patterns
        [where r = False and s = "''09-03-25''" and y = 2025 and m = 3 and d = 9]
      parseSortableDate_two_patterns
        [where r = False and s = "''13/09/25''" and y = 2025 and m = 13 and d = 9]
      parseSortableDate_two_patterns
        [where r = False and s = "''30-02-25''" and y = 2025 and m = 2 and d = 30]
      parseSortableDate_two_patterns
        [where r = True and s = "''30-02-25''" and y = 2025 and m = 2 and d = 30]
    by (simp add: s t t' n)
qed

text \<open>
  Claim C4 as it is worded fails on an engine that rolls a day over, as V8 does.
  February 2024 has 29 days, so \<open>"02/30/24"\<close> names no calendar date; it matches
  \<open>MM/DD/YY\<close>, \<open>Date\<close> reads it as 1 March 2024, and the result is the key of
  \<open>"03/01/24"\<close>, not \<open>Infinity\<close>.
\<close>

theorem parseSortableDate_rollover_counterexample:
  "testDatePattern (CHR ''/'') ''02/30/24''
   \<and> daysInMonth 2024 2 = 29
   \<and> parseSortableDate True ''02/30/24'' = Num 1709251200000
   \<and> parseSortableDate True ''02/30/24'' \<noteq> Infinity
   \<and> parseSortableDate True ''03/01/24'' = Num 1709251200000"
  by (simp add: parseSortableDate_def trySlash_eq testDatePattern_def isDigit_def
      dateOnlyTime_def twoDigits_def digitVal_def daysInMonth_def InLeapYear_def
      DayFromYear_def msPerDay_def numeral_eq_Suc)

section \<open>Properties of the terminal sort\<close>

lemma parseSortableDate_range: "parseSortableDate r s = Infinity \<or> (\<exists>t. parseSortableDate r s = Num t)"
  by (simp add: parseSortableDate_def split: option.splits)

lemma sortKey_range: "sortKey r d = Infinity \<or> (\<exists>t. sortKey r d = Num t)"
  by (simp add: sortKey_def parseSortableDate_range)

text \<open>On the keys that occur, the comparator is positive exactly when the second key is smaller.\<close>

lemma compareDocs_positive:
  "jsLess (Num 0) (sortCompare (compareDocs r) x y) = jsLess (sortKey r y) (sortKey r x)"
  using sortKey_range [of r x] sortKey_range [of r y]
  by (auto simp: sortCompare_def compareDocs_def)

lemma key_total: "\<not> jsLess (sortKey r y) (sortKey r x) \<Longrightarrow> jsLessEq (sortKey r x) (sortKey r y)"
  using sortKey_range [of r x] sortKey_range [of r y] by auto

lemma key_less_imp_le: "jsLess (sortKey r y) (sortKey r x) \<Longrightarrow> jsLessEq (sortKey r y) (sortKey r x)"
  using sortKey_range [of r x] sortKey_range [of r y] by auto

lemma key_trans:
  "jsLessEq (sortKey r x) (sortKey r y) \<Longrightarrow> jsLessEq (sortKey r y) (sortKey r z)
   \<Longrightarrow> jsLessEq (sortKey r x) (sortKey r z)"
  using sortKey_range [of r x] sortKey_range [of r y] sortKey_range [of r z] by auto

lemma key_less_neq: "jsLess (sortKey r y) (sortKey r x) \<Longrightarrow> sortKey r y \<noteq> sortKey r x"
  using sortKey_range [of r x] sortKey_range [of r y] by auto

lemma set_insertSorted: "set (insertSorted c x ys) = insert x (set ys)"
  by (induction ys) auto

lemma mset_insertSorted: "mset (insertSorted c x ys) = add_mset x (mset ys)"
  by (induction ys) auto

lemma mset_jsSort: "mset (jsSort c xs) = mset xs"
  by (induction xs) (simp_all add: jsSort_def mset_insertSorted)

lemma length_jsSort: "length (jsSort c xs) = length xs"
  using mset_jsSort [of c xs] by (metis size_mset)

lemma sorted_insertSorted:
  "sortedByDate r ys \<Longrightarrow> sortedByDate r (insertSorted (compareDocs r) x ys)"
  unfolding sortedByDate_def
proof (induction ys)
  case Nil
  then show ?case by simp
next
  case (Cons y ys)
  show ?case
  proof (cases "jsLess (sortKey r y) (sortKey r x)")
    case True
    have "jsLessEq (sortKey r y) (sortKey r z)" if "z \<in> set (insertSorted (compareDocs r) x ys)" for z
      using that Cons.prems True by (auto simp: set_insertSorted key_less_imp_le)
    with Cons True show ?thesis
      by (simp add: compareDocs_positive)
  next
    case False
    then have xy: "jsLessEq (sortKey r x) (sortKey r y)" by (rule key_total)
    have "jsLessEq (sortKey r x) (sortKey r z)" if "z \<in> set ys" for z
      using that Cons.prems xy key_trans [of r x y z] by auto
    with Cons.prems False xy show ?thesis
      by (simp add: compareDocs_positive)
  qed
qed

lemma sorted_jsSort: "sortedByDate r (jsSort (compareDocs r) xs)"
proof (induction xs)
  case Nil
  show ?case by (simp add: jsSort_def sortedByDate_def)
next
  case (Cons x xs)
  then show ?case using sorted_insertSorted [of r "jsSort (compareDocs r) xs" x]
    by (simp add: jsSort_def)
qed

lemma filter_insertSorted:
  "filter (\<lambda>d. sortKey r d = k) (insertSorted (compareDocs r) x ys) =
     (if sortKey r x = k then x # filter (\<lambda>d. sortKey r d = k) ys
      else filter (\<lambda>d. sortKey r d = k) ys)"
  by (induction ys) (auto simp: compareDocs_positive dest: key_less_neq)

lemma filter_jsSort:
  "filter (\<lambda>d. sortKey r d = k) (jsSort (compareDocs r) xs) = filter (\<lambda>d. sortKey r d = k) xs"
proof (induction xs)
  case Nil
  show ?case by (simp add: jsSort_def)
next
  case (Cons x xs)
  have "jsSort (compareDocs r) (x # xs) = insertSorted (compareDocs r) x (jsSort (compareDocs r) xs)"
    by (simp add: jsSort_def)
  with Cons show ?case by (simp add: filter_insertSorted)
qed

lemma processLoop_map: "processLoop sv fs acc = acc @ map (processFile sv) fs"
  by (induction fs arbitrary: acc) simp_all


lemma processFile_originalFileName:
  "getProp (processFile sv f) ''originalFileName'' = Some (name f)"
  by (rule classifyAndExtract_cases [where sv = sv and m = batchUnknownMessage and f = f])
    (simp_all add: processFile_def getProp_def doc_defs failureDoc_def Let_def)

subsection \<open>The sort key of the documents the batch builds\<close>

text \<open>\<open>parseSortableDate\<close> computes the sortable date of the specification.\<close>

lemma parseSortableDate_spec: "parseSortableDate r s = specSortableDate r s"
proof (cases "length s = 8")
  case True
  then obtain a b c d e f g h where s: "s = [a, b, c, d, e, f, g, h]"
    using length8_conv by blast
  show ?thesis
    unfolding s
    by (auto simp: parseSortableDate_def trySlash_eq tryDash_eq testDatePattern_def calendarKey_def
        split: option.splits)
next
  case False
  then have n: "\<not> testDatePattern (CHR ''/'') s" "\<not> testDatePattern (CHR ''-'') s"
    by (simp_all add: testDatePattern_def)
  have "specSortableDate r s = Infinity"
    using False by (cases "(r, s)" rule: specSortableDate.cases) simp_all
  then show ?thesis
    using n by (simp add: parseSortableDate_def trySlash_eq tryDash_eq)
qed

lemma sortField_docs:
  "sortField (workOrderDoc w fn) = ExtractedWorkOrderData.fechaRegistro w"
  "sortField (supplyRequestDoc s fn) = ExtractedSupplyData.fechaRegistro s"
  "sortField (uninstallationDoc u fn) = ExtractedUninstallationData.fecha u"
  "sortField (installationDoc i fn) = ExtractedInstallationData.fecha i"
  "sortField (failureDoc fn m) = []"
  by (simp_all add: sortField_def getProp_def doc_defs failureDoc_def Let_def)

lemma specSortableDate_Nil: "specSortableDate r [] = Infinity"
  by simp

text \<open>The key the comparator gives a built document is the date of its file.\<close>

lemma sortKey_processFile: "sortKey r (processFile sv f) = fileSortDate r sv f"
  by (rule classifyAndExtract_cases [where sv = sv and m = batchUnknownMessage and f = f])
    (simp_all add: processFile_def sortKey_def sortField_docs parseSortableDate_spec
      fileSortDate_def extractedDate_def extractorError_def
      split: Classification.splits sum.splits)

lemma insertSorted_map:
  "map h (insertSorted (\<lambda>a b. c (h a) (h b)) x ys) = insertSorted c (h x) (map h ys)"
  by (induction ys) (simp_all add: sortCompare_def)

lemma jsSort_map: "map h (jsSort (\<lambda>a b. c (h a) (h b)) xs) = jsSort c (map h xs)"
  by (induction xs) (simp_all add: jsSort_def insertSorted_map)

text \<open>
  Claim C1. For a non-empty selection of files the handler publishes one document per
  file: the accumulator holds the document of each file, in input order, each carrying
  the name of its file; the published sequence is a permutation of the accumulator, so it
  has the length of the input. It is ordered ascending by the sortable date: the key of
  the document of a file is the date of that file, that is the time stamp of the
  \<open>fechaRegistro\<close> of its work order or supply request or of the \<open>fecha\<close> of its
  installation or uninstallation, read as \<open>MM/DD/YY\<close> or \<open>DD-MM-YY\<close>, and \<open>Infinity\<close> for
  a file that fails; and the published sequence is the documents of the files rearranged
  so that these dates ascend.
\<close>

theorem handleProcessFiles_one_per_file_sorted:
  assumes "files st \<noteq> []"
  shows "length (processedData (handleProcessFiles r sv st)) = length (files st)
    \<and> processLoop sv (files st) [] = map (processFile sv) (files st)
    \<and> map (\<lambda>d. getProp d ''originalFileName'') (processLoop sv (files st) [])
        = map (\<lambda>f. Some (name f)) (files st)
    \<and> mset (processedData (handleProcessFiles r sv st)) = mset (processLoop sv (files st) [])
    \<and> sortedByDate r (processedData (handleProcessFiles r sv st))
    \<and> sortKey r (processFile sv f) = fileSortDate r sv f
    \<and> (\<exists>fs. mset fs = mset (files st)
          \<and> processedData (handleProcessFiles r sv st) = map (processFile sv) fs
          \<and> sorted_wrt (\<lambda>f g. jsLessEq (fileSortDate r sv f) (fileSortDate r sv g)) fs)"
proof -
  have pd: "processedData (handleProcessFiles r sv st)
              = jsSort (compareDocs r) (processLoop sv (files st) [])"
    using assms by (simp add: handleProcessFiles_def Let_def)
  have len: "length (processedData (handleProcessFiles r sv st)) = length (files st)"
    by (simp add: pd length_jsSort processLoop_map)
  have names: "map (\<lambda>d. getProp d ''originalFileName'') (processLoop sv (files st) [])
        = map (\<lambda>f. Some (name f)) (files st)"
    by (simp add: processLoop_map processFile_originalFileName)
  let ?fs = "jsSort (\<lambda>f g. compareDocs r (processFile sv f) (processFile sv g)) (files st)"
  have m: "mset ?fs = mset (files st)"
    by (rule mset_jsSort)
  have e: "processedData (handleProcessFiles r sv st) = map (processFile sv) ?fs"
    by (simp add: pd processLoop_map jsSort_map)
  have "sortedByDate r (map (processFile sv) ?fs)"
    using sorted_jsSort [of r "processLoop sv (files st) []"] by (simp add: pd [symmetric] e)
  then have o: "sorted_wrt (\<lambda>f g. jsLessEq (fileSortDate r sv f) (fileSortDate r sv g)) ?fs"
    by (simp add: sortedByDate_def sorted_wrt_map sortKey_processFile)
  from m e o have ex: "\<exists>fs. mset fs = mset (files st)
          \<and> processedData (handleProcessFiles r sv st) = map (processFile sv) fs
          \<and> sorted_wrt (\<lambda>f g. jsLessEq (fileSortDate r sv f) (fileSortDate r sv g)) fs"
    by blast
  have srt: "sortedByDate r (processedData (handleProcessFiles r sv st))"
    by (simp add: pd sorted_jsSort)
  have ms: "mset (processedData (handleProcessFiles r sv st)) = mset (processLoop sv (files st) [])"
    by (simp add: pd mset_jsSort)
  from len names ex srt ms show ?thesis
    by (simp add: processLoop_map sortKey_processFile)
qed

text \<open>
  The theorem on four files given in the order \<open>b.pdf\<close> (fails), \<open>d.pdf\<close> (installation
  with \<open>fecha\<close> 03/01/24), \<open>a.pdf\<close> (work order with \<open>fechaRegistro\<close> 01-02-24), \<open>c.pdf\<close>
  (supply request with \<open>fechaRegistro\<close> 01/15/24). The published order is 15 January,
  1 February, 1 March 2024, then the failure: it is not the input order, and it depends on
  the \<open>fecha\<close> of the installation and on the day-first reading of the work order's date.
\<close>

theorem handleProcessFiles_one_per_file_sorted_witness:
  "files datedState \<noteq> []
   \<and> length (processedData (handleProcessFiles False exampleServices datedState)) = 4
   \<and> sortedByDate False (processedData (handleProcessFiles False exampleServices datedState))
   \<and> map (\<lambda>d. getProp d ''originalFileName'')
         (processedData (handleProcessFiles False exampleServices datedState))
       = [Some ''c.pdf'', Some ''a.pdf'', Some ''d.pdf'', Some ''b.pdf'']
   \<and> map (extractedDate exampleServices) [fileC, fileA, fileD, fileB]
       = [Some ''01/15/24'', Some ''01-02-24'', Some ''03/01/24'', None]
   \<and> map (sortKey False) (processedData (handleProcessFiles False exampleServices datedState))
       = [Num 1705276800000, Num 1706745600000, Num 1709251200000, Infinity]
   \<and> sortKey False (processFile exampleServices fileD) = Num 1709251200000
   \<and> fileSortDate False exampleServices fileD = Num 1709251200000"
proof -
  have h: "files datedState \<noteq> []"
    by (simp add: datedState_def)
  have n: "length (files datedState) = 4"
    by (simp add: datedState_def)
  have ord: "map (\<lambda>d. getProp d ''originalFileName'')
         (processedData (handleProcessFiles False exampleServices datedState))
       = [Some ''c.pdf'', Some ''a.pdf'', Some ''d.pdf'', Some ''b.pdf'']"
    by code_simp
  have dates: "map (extractedDate exampleServices) [fileC, fileA, fileD, fileB]
       = [Some ''01/15/24'', Some ''01-02-24'', Some ''03/01/24'', None]"
    by code_simp
  have keys: "map (sortKey False) (processedData (handleProcessFiles False exampleServices datedState))
       = [Num 1705276800000, Num 1706745600000, Num 1709251200000, Infinity]"
    by code_simp
  have fd: "fileSortDate False exampleServices fileD = Num 1709251200000"
    by code_simp
  note T = handleProcessFiles_one_per_file_sorted [OF h, of False exampleServices fileD]
  from T have a: "length (processedData (handleProcessFiles False exampleServices datedState))
                    = length (files datedState)"
    by blast
  from T have b: "sortedByDate False (processedData (handleProcessFiles False exampleServices datedState))"
    by blast
  from T have c: "sortKey False (processFile exampleServices fileD) = fileSortDate False exampleServices fileD"
    by blast
  from a b c h n ord dates keys fd show ?thesis
    by simp
qed

text \<open>
  Claim C5. The terminal sort is stable: for every key, the documents with that key appear
  in the sorted sequence in the order they have in the accumulator. A document whose date
  string is empty or matches neither pattern has the key \<open>Infinity\<close>, so such documents
  keep their relative order.
\<close>

theorem terminal_sort_stable:
  "filter (\<lambda>d. sortKey r d = k) (jsSort (compareDocs r) allData)
     = filter (\<lambda>d. sortKey r d = k) allData
   \<and> (files st \<noteq> [] \<longrightarrow>
        filter (\<lambda>d. sortKey r d = k) (processedData (handleProcessFiles r sv st))
          = filter (\<lambda>d. sortKey r d = k) (processLoop sv (files st) []))
   \<and> (sortField d = [] \<or> (\<not> testDatePattern (CHR ''/'') (sortField d)
                          \<and> \<not> testDatePattern (CHR ''-'') (sortField d))
        \<longrightarrow> sortKey r d = Infinity)"
proof -
  have inf: "sortKey r d = Infinity"
    if "sortField d = [] \<or> (\<not> testDatePattern (CHR ''/'') (sortField d)
                          \<and> \<not> testDatePattern (CHR ''-'') (sortField d))"
    using that by (auto simp: sortKey_def parseSortableDate_def trySlash_eq tryDash_eq)
  show ?thesis
    using inf by (simp add: filter_jsSort handleProcessFiles_def Let_def)
qed

text \<open>
  The theorem on four documents, two of them failures without a date and one with an
  unreadable date: the three keep their order behind the dated one.
\<close>

theorem terminal_sort_stable_witness:
  "map (\<lambda>d. getProp d ''originalFileName'')
     (filter (\<lambda>d. sortKey False d = Infinity)
        (jsSort (compareDocs False)
           [failureDoc ''p.pdf'' ''e1'', [(''fecha'', ''2024-01-15''), (''originalFileName'', ''q.pdf'')],
            processFile exampleServices fileA, failureDoc ''r.pdf'' ''e2'']))
   = [Some ''p.pdf'', Some ''q.pdf'', Some ''r.pdf'']
   \<and> jsSort (compareDocs False)
        [failureDoc ''p.pdf'' ''e1'', [(''fecha'', ''2024-01-15''), (''originalFileName'', ''q.pdf'')],
         processFile exampleServices fileA, failureDoc ''r.pdf'' ''e2'']
     = [processFile exampleServices fileA, failureDoc ''p.pdf'' ''e1'',
        [(''fecha'', ''2024-01-15''), (''originalFileName'', ''q.pdf'')], failureDoc ''r.pdf'' ''e2'']"
proof -
  let ?xs = "[failureDoc ''p.pdf'' ''e1'', [(''fecha'', ''2024-01-15''), (''originalFileName'', ''q.pdf'')],
            processFile exampleServices fileA, failureDoc ''r.pdf'' ''e2'']"
  have a: "map (\<lambda>d. getProp d ''originalFileName'') (filter (\<lambda>d. sortKey False d = Infinity) ?xs)
             = [Some ''p.pdf'', Some ''q.pdf'', Some ''r.pdf'']"
    by code_simp
  have b: "jsSort (compareDocs False) ?xs
     = [processFile exampleServices fileA, failureDoc ''p.pdf'' ''e1'',
        [(''fecha'', ''2024-01-15''), (''originalFileName'', ''q.pdf'')], failureDoc ''r.pdf'' ''e2'']"
    by code_simp
  from terminal_sort_stable [of False Infinity ?xs exampleState exampleServices "[]"] a b
  show ?thesis by simp
qed

section \<open>Properties of the failure path of the batch\<close>

lemma getProp_failureDoc:
  "getProp (failureDoc n m) ''type'' = Some ''workOrder''"
  "getProp (failureDoc n m) ''orden'' = Some failureMarker"
  "getProp (failureDoc n m) ''error'' = Some m"
  by (simp_all add: getProp_def failureDoc_def)

lemma orElse_batchUnknownMessage: "orElse batchUnknownMessage fb = batchUnknownMessage"
  by (simp add: orElse_def batchUnknownMessage_def)

lemma processFile_unknown:
  "fileToBase64 sv f = Inr b \<Longrightarrow> classifyDocument sv b = Unknown
   \<Longrightarrow> processFile sv f = failureDoc (name f) batchUnknownMessage"
  by (simp add: processFile_def classifyAndExtract_def orElse_batchUnknownMessage)

lemma processFile_extractorError:
  "fileToBase64 sv f = Inr b \<Longrightarrow> extractorError sv b = Some msg
   \<Longrightarrow> processFile sv f = failureDoc (name f) (orElse msg batchFallbackMessage)"
  by (rule classifyAndExtract_cases [where sv = sv and m = batchUnknownMessage and f = f])
    (auto simp: processFile_def extractorError_def)

lemma processFile_encodingError:
  "fileToBase64 sv f = Inl msg
   \<Longrightarrow> processFile sv f = failureDoc (name f) (orElse msg batchFallbackMessage)"
  by (simp add: processFile_def classifyAndExtract_def)

text \<open>
  Claim C2, as the code has it. Every file is processed whatever happens to the others:
  the accumulator is the list of the documents of the files. A file classified
  \<open>unknown\<close>, a file whose extractor raises and a file that cannot be encoded each give
  the sentinel of type \<open>workOrder\<close> with \<open>orden\<close> the failure marker. Its \<open>error\<close> is the
  message of the failure, or the fallback text when that message is empty; for the
  unknown type the message is the Spanish sentence of line 149.
\<close>

theorem batch_failure_sentinel:
  "processLoop sv fs [] = map (processFile sv) fs
   \<and> (fileToBase64 sv f = Inr b \<and> classifyDocument sv b = Unknown
        \<longrightarrow> processFile sv f = failureDoc (name f) ''No se pudo reconocer el tipo de documento.'')
   \<and> (fileToBase64 sv f = Inr b \<and> extractorError sv b = Some msg
        \<longrightarrow> processFile sv f = failureDoc (name f) (if msg \<noteq> [] then msg else batchFallbackMessage))
   \<and> (fileToBase64 sv f = Inl msg
        \<longrightarrow> processFile sv f = failureDoc (name f) (if msg \<noteq> [] then msg else batchFallbackMessage))
   \<and> getProp (failureDoc n m) ''type'' = Some ''workOrder''
   \<and> getProp (failureDoc n m) ''orden'' = Some ''Fallo de Procesamiento''
   \<and> getProp (failureDoc n m) ''error'' = Some m"
proof -
  have u: "fileToBase64 sv f = Inr b \<and> classifyDocument sv b = Unknown
        \<longrightarrow> processFile sv f = failureDoc (name f) ''No se pudo reconocer el tipo de documento.''"
    using processFile_unknown [of sv f b] by (simp add: batchUnknownMessage_def)
  have e: "fileToBase64 sv f = Inr b \<and> extractorError sv b = Some msg
        \<longrightarrow> processFile sv f = failureDoc (name f) (if msg \<noteq> [] then msg else batchFallbackMessage)"
    using processFile_extractorError [of sv f b msg] by (simp add: orElse_def)
  have c: "fileToBase64 sv f = Inl msg
        \<longrightarrow> processFile sv f = failureDoc (name f) (if msg \<noteq> [] then msg else batchFallbackMessage)"
    using processFile_encodingError [of sv f msg] by (simp add: orElse_def)
  have m: "getProp (failureDoc n m) ''orden'' = Some ''Fallo de Procesamiento''"
    using getProp_failureDoc(2) [of n m] by (simp add: failureMarker_def)
  show ?thesis
    using u e c m by (simp add: processLoop_map getProp_failureDoc)
qed

text \<open>
  The theorem on a batch of three files, the first unknown, the second with a raising
  extractor, the third a work order: three documents, the first two sentinels.
\<close>

theorem batch_failure_sentinel_witness:
  "processLoop exampleServices [fileE, fileB, fileA] []
     = [failureDoc ''e.pdf'' ''No se pudo reconocer el tipo de documento.'',
        failureDoc ''b.pdf'' ''Unexpected token'',
        processFile exampleServices fileA]
   \<and> getProp (processFile exampleServices fileA) ''orden'' = Some ''1001''"
proof -
  have e: "fileToBase64 exampleServices fileE = Inr ''x''"
    "classifyDocument exampleServices ''x'' = Unknown" "name fileE = ''e.pdf''"
    by (simp_all add: exampleServices_def fileE_def)
  have b: "fileToBase64 exampleServices fileB = Inr ''u''"
    "extractorError exampleServices ''u'' = Some ''Unexpected token''" "name fileB = ''b.pdf''"
    by (simp_all add: exampleServices_def fileB_def extractorError_def)
  have a: "getProp (processFile exampleServices fileA) ''orden'' = Some ''1001''"
    by code_simp
  from batch_failure_sentinel [of exampleServices "[fileE, fileB, fileA]" fileE "''x''" "[]"]
    batch_failure_sentinel [of exampleServices "[]" fileB "''u''" "''Unexpected token''"]
    e b a
  show ?thesis by simp
qed

text \<open>
  Claim C2 as it is worded fails: for a file classified \<open>unknown\<close> the \<open>error\<close> of the
  sentinel is not the text "document type not recognized", and for an extractor that
  raises an error with an empty message the \<open>error\<close> is not that empty message.
\<close>

theorem batch_failure_message_counterexample:
  "fileToBase64 exampleServices fileE = Inr ''x''
   \<and> classifyDocument exampleServices ''x'' = Unknown
   \<and> getProp (processFile exampleServices fileE) ''error''
       = Some ''No se pudo reconocer el tipo de documento.''
   \<and> getProp (processFile exampleServices fileE) ''error'' \<noteq> Some ''document type not recognized''
   \<and> fileToBase64 silentServices fileD = Inr ''i''
   \<and> extractorError silentServices ''i'' = Some []
   \<and> getProp (processFile silentServices fileD) ''error'' = Some batchFallbackMessage
   \<and> getProp (processFile silentServices fileD) ''error'' \<noteq> Some []"
  by (simp add: exampleServices_def silentServices_def fileE_def fileD_def processFile_def
      classifyAndExtract_def extractorError_def failureDoc_def getProp_def orElse_def
      batchUnknownMessage_def batchFallbackMessage_def)

section \<open>Properties of \<open>handleRetryFile\<close>\<close>

lemma getProp_setProp: "getProp (setProp k v d) k' = (if k' = k then Some v else getProp d k')"
  by (simp add: getProp_def setProp_def update_conv')

lemma hasProp_setProp: "hasProp k' (setProp k v d) = (k' = k \<or> hasProp k' d)"
  by (simp add: hasProp_def setProp_def update_conv')

lemma isFailure_setProp_error: "isFailure (setProp ''error'' v d) = isFailure d"
  by (simp add: isFailure_def getProp_setProp)

lemma setProp_error_failureDoc: "setProp ''error'' m' (failureDoc n m) = failureDoc n m'"
  by (simp add: setProp_def failureDoc_def)

text \<open>The three outcomes of the handler.\<close>

lemma handleRetryFile_cases:
  obtains (unchanged) "handleRetryFile sv st i = st"
  | (success) f d where "i < length (processedData st)" "f \<in> set (files st)"
      "Some (name f) = getProp (processedData st ! i) ''originalFileName''"
      "classifyAndExtract sv retryUnknownMessage f = Inr d"
      "handleRetryFile sv st i = st\<lparr>processedData := (processedData st)[i := d]\<rparr>"
  | (failure) f err where "i < length (processedData st)" "f \<in> set (files st)"
      "classifyAndExtract sv retryUnknownMessage f = Inl err"
      "handleRetryFile sv st i = st\<lparr>processedData := (processedData st)
         [i := setProp ''error'' (orElse err retryFallbackMessage) (processedData st ! i)]\<rparr>"
proof (cases "i < length (processedData st)")
  case False
  then have "handleRetryFile sv st i = st" by (simp add: handleRetryFile_def)
  then show ?thesis by (rule unchanged)
next
  case True
  show ?thesis
  proof (cases "find (\<lambda>f. Some (name f) = getProp (processedData st ! i) ''originalFileName'') (files st)")
    case None
    with True have "handleRetryFile sv st i = st" by (simp add: handleRetryFile_def)
    then show ?thesis by (rule unchanged)
  next
    case (Some f)
    then have f: "f \<in> set (files st)"
      "Some (name f) = getProp (processedData st ! i) ''originalFileName''"
      by (auto simp: find_Some_iff)
    show ?thesis
    proof (cases "classifyAndExtract sv retryUnknownMessage f")
      case (Inl err)
      with True Some have "handleRetryFile sv st i = st\<lparr>processedData := (processedData st)
         [i := setProp ''error'' (orElse err retryFallbackMessage) (processedData st ! i)]\<rparr>"
        by (simp add: handleRetryFile_def Let_def)
      with True f(1) Inl show ?thesis by (rule failure)
    next
      case (Inr d)
      with True Some have "handleRetryFile sv st i = st\<lparr>processedData := (processedData st)[i := d]\<rparr>"
        by (simp add: handleRetryFile_def Let_def)
      with True f Inr show ?thesis by (rule success)
    qed
  qed
qed

text \<open>
  Claim C7. Whatever its outcome, a retry at index \<open>i\<close> leaves the files and the length of
  the result sequence as they are, and the document at every other index unchanged.
\<close>

theorem handleRetryFile_frame:
  "files (handleRetryFile sv st i) = files st
   \<and> length (processedData (handleRetryFile sv st i)) = length (processedData st)
   \<and> (j \<noteq> i \<longrightarrow> processedData (handleRetryFile sv st i) ! j = processedData st ! j)"
  by (rule handleRetryFile_cases [where sv = sv and st = st and i = i]) simp_all

text \<open>
  The theorem on the example state, whose slot 2 holds the failed \<open>b.pdf\<close>: a retry that
  succeeds and a retry that fails again both leave slots 0 and 1 alone, and both change
  slot 2.
\<close>

theorem handleRetryFile_frame_witness:
  "processedData (handleRetryFile repairedServices processedExample 2) ! 0 = processedData processedExample ! 0
   \<and> processedData (handleRetryFile repairedServices processedExample 2) ! 1 = processedData processedExample ! 1
   \<and> processedData (handleRetryFile unknownServices processedExample 2) ! 0 = processedData processedExample ! 0
   \<and> processedData (handleRetryFile unknownServices processedExample 2) ! 1 = processedData processedExample ! 1
   \<and> files (handleRetryFile repairedServices processedExample 2) = [fileA, fileB, fileC]
   \<and> getProp (processedData (handleRetryFile repairedServices processedExample 2) ! 2) ''orden'' = Some ''U77''
   \<and> getProp (processedData (handleRetryFile unknownServices processedExample 2) ! 2) ''error''
       = Some ''No se pudo reconocer el tipo de documento al reintentar.''
   \<and> getProp (processedData processedExample ! 2) ''error'' = Some ''Unexpected token''"
proof -
  have f: "files processedExample = [fileA, fileB, fileC]"
    by (simp add: processedExample_def handleProcessFiles_def exampleState_def Let_def)
  have a: "getProp (processedData (handleRetryFile repairedServices processedExample 2) ! 2) ''orden'' = Some ''U77''"
    by code_simp
  have b: "getProp (processedData (handleRetryFile unknownServices processedExample 2) ! 2) ''error''
       = Some ''No se pudo reconocer el tipo de documento al reintentar.''"
    by code_simp
  have c: "getProp (processedData processedExample ! 2) ''error'' = Some ''Unexpected token''"
    by code_simp
  from handleRetryFile_frame [of repairedServices processedExample 2 0]
    handleRetryFile_frame [of repairedServices processedExample 2 1]
    handleRetryFile_frame [of unknownServices processedExample 2 0]
    handleRetryFile_frame [of unknownServices processedExample 2 1]
    f a b c
  show ?thesis by simp
qed

text \<open>
  Claim C6, as the code has it. When the retry of slot \<open>i\<close> fails, the slot receives a copy
  of the record it held with \<open>error\<close> set to the message of this retry (the fallback text
  when that message is empty): the previous error is gone, every other property is the
  one of the old record. When the old record is the sentinel the batch made, the result is
  that sentinel with the new message. For an unknown type the message is the sentence of
  line 261.
\<close>

theorem handleRetryFile_failure_keeps_record:
  assumes "i < length (processedData st)"
    and "find (\<lambda>f. Some (name f) = getProp (processedData st ! i) ''originalFileName'') (files st) = Some f"
    and "classifyAndExtract sv retryUnknownMessage f = Inl err"
  shows "processedData (handleRetryFile sv st i) ! i
           = setProp ''error'' (if err \<noteq> [] then err else retryFallbackMessage) (processedData st ! i)
    \<and> getProp (processedData (handleRetryFile sv st i) ! i) ''error''
           = Some (if err \<noteq> [] then err else retryFallbackMessage)
    \<and> (k \<noteq> ''error'' \<longrightarrow>
          getProp (processedData (handleRetryFile sv st i) ! i) k = getProp (processedData st ! i) k)
    \<and> (processedData st ! i = failureDoc n e0 \<longrightarrow>
          processedData (handleRetryFile sv st i) ! i
            = failureDoc n (if err \<noteq> [] then err else retryFallbackMessage))
    \<and> (fileToBase64 sv f = Inr b \<and> classifyDocument sv b = Unknown \<longrightarrow>
          err = ''No se pudo reconocer el tipo de documento al reintentar.'')"
proof -
  have eq: "processedData (handleRetryFile sv st i) ! i
           = setProp ''error'' (if err \<noteq> [] then err else retryFallbackMessage) (processedData st ! i)"
    using assms by (simp add: handleRetryFile_def Let_def orElse_def)
  have u: "fileToBase64 sv f = Inr b \<and> classifyDocument sv b = Unknown \<longrightarrow>
          err = ''No se pudo reconocer el tipo de documento al reintentar.''"
    using assms(3) by (auto simp: classifyAndExtract_def retryUnknownMessage_def)
  show ?thesis
    using u by (simp add: eq getProp_setProp setProp_error_failureDoc)
qed

text \<open>
  The theorem on the failed slot 2 of the example state, retried while the classifier
  answers \<open>unknown\<close>: the slot is the batch's sentinel with the retry's message.
\<close>

theorem handleRetryFile_failure_keeps_record_witness:
  "processedData (handleRetryFile unknownServices processedExample 2) ! 2
     = failureDoc ''b.pdf'' ''No se pudo reconocer el tipo de documento al reintentar.''
   \<and> processedData processedExample ! 2 = failureDoc ''b.pdf'' ''Unexpected token''"
proof -
  have h1: "2 < length (processedData processedExample)"
    by code_simp
  have h2: "find (\<lambda>f. Some (name f) = getProp (processedData processedExample ! 2) ''originalFileName'')
              (files processedExample) = Some fileB"
    by code_simp
  have h3: "classifyAndExtract unknownServices retryUnknownMessage fileB
              = Inl ''No se pudo reconocer el tipo de documento al reintentar.''"
    by code_simp
  have old: "processedData processedExample ! 2 = failureDoc ''b.pdf'' ''Unexpected token''"
    by code_simp
  from handleRetryFile_failure_keeps_record
         [OF h1 h2 h3, of "''serie''" "''b.pdf''" "''Unexpected token''" "''u''"] old
  show ?thesis by (simp add: setProp_error_failureDoc)
qed

text \<open>
  Claim C6 as it is worded fails. Retried at slot 1 of the example state, which holds the
  work order 1001, while the classifier answers \<open>unknown\<close>, the handler does not put a
  failure record there: the slot keeps the work order, with \<open>error\<close> added. The same
  happens on a row that offers the retry: the supply request whose order number was read
  as the marker text stays a supply request with its series, and is not the sentinel a
  failure of \<open>c.pdf\<close> with this message would be.
\<close>

theorem handleRetryFile_failure_counterexample:
  "classifyAndExtract unknownServices retryUnknownMessage fileA
     = Inl ''No se pudo reconocer el tipo de documento al reintentar.''
   \<and> getProp (processedData processedExample ! 1) ''originalFileName'' = Some (name fileA)
   \<and> getProp (processedData (handleRetryFile unknownServices processedExample 1) ! 1) ''error''
       = Some ''No se pudo reconocer el tipo de documento al reintentar.''
   \<and> getProp (processedData (handleRetryFile unknownServices processedExample 1) ! 1) ''orden''
       = Some ''1001''
   \<and> getProp (processedData (handleRetryFile unknownServices processedExample 1) ! 1) ''serie''
       = Some ''S1''
   \<and> \<not> isFailure (processedData (handleRetryFile unknownServices processedExample 1) ! 1)
   \<and> isFailure (processedData markerBatch ! 0)
   \<and> getProp (processedData (handleRetryFile unknownServices markerBatch 0) ! 0) ''error''
       = Some ''No se pudo reconocer el tipo de documento al reintentar.''
   \<and> getProp (processedData (handleRetryFile unknownServices markerBatch 0) ! 0) ''type''
       = Some ''supplyRequest''
   \<and> getProp (processedData (handleRetryFile unknownServices markerBatch 0) ! 0) ''serie''
       = Some ''S2''
   \<and> processedData (handleRetryFile unknownServices markerBatch 0) ! 0
       \<noteq> failureDoc ''c.pdf'' ''No se pudo reconocer el tipo de documento al reintentar.''"
  by code_simp

section \<open>The retry on a sequence rewritten in the meantime\<close>

lemma arrayDocs_map_Some: "arrayDocs (map Some xs) = xs"
  by (induction xs) (simp_all add: arrayDocs_def)

lemma jsArraySet_in_range: "i < length xs \<Longrightarrow> jsArraySet xs i v = map Some (xs[i := v])"
  by (simp add: jsArraySet_def map_update)

text \<open>The three outcomes of the updater.\<close>

lemma handleRetryFileUpdate_cases:
  obtains (unchanged) "handleRetryFileUpdate sv captured i prevData = map Some prevData"
  | (success) f d where "f \<in> set (files captured)"
      "classifyAndExtract sv retryUnknownMessage f = Inr d"
      "handleRetryFileUpdate sv captured i prevData = jsArraySet prevData i d"
  | (failure) f err where "f \<in> set (files captured)"
      "classifyAndExtract sv retryUnknownMessage f = Inl err"
      "handleRetryFileUpdate sv captured i prevData
         = jsArraySet prevData i (setProp ''error'' (orElse err retryFallbackMessage)
             (if i < length prevData then prevData ! i else []))"
proof (cases "i < length (processedData captured)")
  case False
  then have "handleRetryFileUpdate sv captured i prevData = map Some prevData"
    by (simp add: handleRetryFileUpdate_def)
  then show ?thesis by (rule unchanged)
next
  case True
  show ?thesis
  proof (cases "find (\<lambda>f. Some (name f) = getProp (processedData captured ! i) ''originalFileName'')
                  (files captured)")
    case None
    with True have "handleRetryFileUpdate sv captured i prevData = map Some prevData"
      by (simp add: handleRetryFileUpdate_def)
    then show ?thesis by (rule unchanged)
  next
    case (Some f)
    then have f: "f \<in> set (files captured)"
      by (auto simp: find_Some_iff)
    show ?thesis
    proof (cases "classifyAndExtract sv retryUnknownMessage f")
      case (Inl err)
      with True Some have "handleRetryFileUpdate sv captured i prevData
         = jsArraySet prevData i (setProp ''error'' (orElse err retryFallbackMessage)
             (if i < length prevData then prevData ! i else []))"
        by (simp add: handleRetryFileUpdate_def Let_def)
      with f Inl show ?thesis by (rule failure)
    next
      case (Inr d)
      with True Some have "handleRetryFileUpdate sv captured i prevData = jsArraySet prevData i d"
        by (simp add: handleRetryFileUpdate_def Let_def)
      with f Inr show ?thesis by (rule success)
    qed
  qed
qed

lemma jsArraySet_other: "j \<noteq> i \<Longrightarrow> j < length xs \<Longrightarrow> jsArraySet xs i v ! j = Some (xs ! j)"
  by (simp add: jsArraySet_def nth_append)

text \<open>
  On the rewritten sequence too, the updater writes slot \<open>i\<close> only, and its failure
  branch copies the record of that slot with \<open>error\<close> assigned.
\<close>

lemma handleRetryFileUpdate_frame:
  "j \<noteq> i \<Longrightarrow> j < length prevData
   \<Longrightarrow> handleRetryFileUpdate sv captured i prevData ! j = Some (prevData ! j)"
  by (rule handleRetryFileUpdate_cases [where sv = sv and captured = captured and i = i
        and prevData = prevData])
    (simp_all add: jsArraySet_other)

lemma handleRetryFileUpdate_failure:
  assumes "i < length (processedData captured)" and "i < length prevData"
    and "find (\<lambda>f. Some (name f) = getProp (processedData captured ! i) ''originalFileName'')
           (files captured) = Some f"
    and "classifyAndExtract sv retryUnknownMessage f = Inl err"
  shows "handleRetryFileUpdate sv captured i prevData ! i
           = Some (setProp ''error'' (orElse err retryFallbackMessage) (prevData ! i))"
  using assms by (simp add: handleRetryFileUpdate_def Let_def jsArraySet_in_range)

text \<open>When nothing rewrote the sequence, the updater gives the state of \<open>handleRetryFile\<close>.\<close>

lemma handleRetryFileUpdate_same_state:
  "handleRetryFileUpdate sv st i (processedData st) = map Some (processedData (handleRetryFile sv st i))"
  by (simp add: handleRetryFileUpdate_def handleRetryFile_def Let_def jsArraySet_in_range
      split: option.splits sum.splits)

section \<open>The failure marker and the \<open>error\<close> property\<close>

lemma errorIffMarker_extracted:
  assumes "classifyAndExtract sv m f = Inr d"
  shows "errorIffMarker d = (extractedIdent sv f \<noteq> Some failureMarker)"
  using classifyAndExtract_Inr [OF assms] by (auto simp: errorIffMarker_def isFailure_def)

lemma errorIffMarker_processFile:
  "errorIffMarker (processFile sv f) = (extractedIdent sv f \<noteq> Some failureMarker)"
proof (cases "classifyAndExtract sv batchUnknownMessage f")
  case (Inl err)
  then show ?thesis
    using classifyAndExtract_Inl [OF Inl] by (simp add: processFile_def errorIffMarker_failureDoc)
next
  case (Inr d)
  then show ?thesis
    using errorIffMarker_extracted [OF Inr] by (simp add: processFile_def)
qed

lemma error_imp_marker_processFile:
  "hasProp ''error'' (processFile sv f) \<Longrightarrow> isFailure (processFile sv f)"
proof (cases "classifyAndExtract sv batchUnknownMessage f")
  case (Inl err)
  then show ?thesis
    by (simp add: processFile_def isFailure_def getProp_def failureDoc_def)
next
  case (Inr d)
  assume "hasProp ''error'' (processFile sv f)"
  then show ?thesis
    using classifyAndExtract_Inr [OF Inr] Inr by (simp add: processFile_def)
qed

lemma set_handleProcessFiles:
  "files st \<noteq> [] \<Longrightarrow> set (processedData (handleProcessFiles r sv st)) = processFile sv ` set (files st)"
proof -
  assume "files st \<noteq> []"
  then have "mset (processedData (handleProcessFiles r sv st)) = mset (map (processFile sv) (files st))"
    by (simp add: handleProcessFiles_def Let_def mset_jsSort processLoop_map)
  then have "set_mset (mset (processedData (handleProcessFiles r sv st)))
               = set_mset (mset (map (processFile sv) (files st)))"
    by simp
  then show ?thesis by simp
qed

lemma errorIffMarker_setProp_error: "errorIffMarker (setProp ''error'' v d) = isFailure d"
  by (simp add: errorIffMarker_def hasProp_setProp isFailure_setProp_error)

lemma list_all_update: "list_all P xs \<Longrightarrow> P x \<Longrightarrow> list_all P (xs[i := x])"
  by (auto simp: list_all_iff dest: set_update_subset_insert [THEN subsetD])

text \<open>
  Claim C3, as the code has it. In the sequence the batch publishes, a document with an
  \<open>error\<close> always has the failure marker as \<open>orden\<close>; the converse holds as well, so the
  biconditional holds for every document, when no extractor returned the marker itself as
  an identifier. The updater of a retry keeps the biconditional for every document, in its
  success and in its failure branch, when slot \<open>index\<close> of the sequence it rewrites
  holds a document with the marker as \<open>orden\<close>, under the same condition on the
  extractors; the sequence it rewrites need not be the one the retry was clicked in. That
  is so in particular when nothing rewrote the sequence since a failed row was clicked.
\<close>

theorem error_iff_marker_invariant:
  "(files st \<noteq> [] \<longrightarrow>
      list_all (\<lambda>d. \<not> hasProp ''error'' d \<or> isFailure d) (processedData (handleProcessFiles r sv st)))
   \<and> (files st \<noteq> [] \<and> markerFree sv (files st) \<longrightarrow>
      list_all errorIffMarker (processedData (handleProcessFiles r sv st)))
   \<and> (list_all errorIffMarker prevData \<and> markerFree sv (files captured)
        \<and> i < length prevData \<and> isFailure (prevData ! i) \<longrightarrow>
      handleRetryFileUpdate sv captured i prevData
        = map Some (arrayDocs (handleRetryFileUpdate sv captured i prevData))
      \<and> length (handleRetryFileUpdate sv captured i prevData) = length prevData
      \<and> list_all errorIffMarker (arrayDocs (handleRetryFileUpdate sv captured i prevData)))
   \<and> (list_all errorIffMarker (processedData st) \<and> markerFree sv (files st)
        \<and> i < length (processedData st) \<and> isFailure (processedData st ! i) \<longrightarrow>
      handleRetryFileUpdate sv st i (processedData st)
        = map Some (processedData (handleRetryFile sv st i))
      \<and> list_all errorIffMarker (processedData (handleRetryFile sv st i)))"
proof -
  have A: "list_all (\<lambda>d. \<not> hasProp ''error'' d \<or> isFailure d) (processedData (handleProcessFiles r sv st))"
    if "files st \<noteq> []"
    using set_handleProcessFiles [OF that, of r sv] error_imp_marker_processFile [of sv]
    by (auto simp: list_all_iff)
  have B: "list_all errorIffMarker (processedData (handleProcessFiles r sv st))"
    if "files st \<noteq> []" "markerFree sv (files st)"
    using set_handleProcessFiles [OF that(1), of r sv] that(2)
    by (auto simp: list_all_iff markerFree_def errorIffMarker_processFile)
  have C: "handleRetryFileUpdate sv cap i prev = map Some (arrayDocs (handleRetryFileUpdate sv cap i prev))
      \<and> length (handleRetryFileUpdate sv cap i prev) = length prev
      \<and> list_all errorIffMarker (arrayDocs (handleRetryFileUpdate sv cap i prev))"
    if inv: "list_all errorIffMarker prev" and mf: "markerFree sv (files cap)"
      and rng: "i < length prev" and fl: "isFailure (prev ! i)" for cap prev
  proof (rule handleRetryFileUpdate_cases [where sv = sv and captured = cap and i = i and prevData = prev])
    assume "handleRetryFileUpdate sv cap i prev = map Some prev"
    with inv show ?thesis by (simp add: arrayDocs_map_Some)
  next
    fix f d
    assume f: "f \<in> set (files cap)" and ok: "classifyAndExtract sv retryUnknownMessage f = Inr d"
      and eq: "handleRetryFileUpdate sv cap i prev = jsArraySet prev i d"
    from mf f have "extractedIdent sv f \<noteq> Some failureMarker"
      by (simp add: markerFree_def list_all_iff)
    then have "errorIffMarker d" using errorIffMarker_extracted [OF ok] by simp
    with inv rng eq show ?thesis
      by (simp add: jsArraySet_in_range arrayDocs_map_Some list_all_update)
  next
    fix f err
    assume eq: "handleRetryFileUpdate sv cap i prev
         = jsArraySet prev i (setProp ''error'' (orElse err retryFallbackMessage)
             (if i < length prev then prev ! i else []))"
    from fl have "errorIffMarker (setProp ''error'' (orElse err retryFallbackMessage) (prev ! i))"
      by (simp add: errorIffMarker_setProp_error)
    with inv rng eq show ?thesis
      by (simp add: jsArraySet_in_range arrayDocs_map_Some list_all_update)
  qed
  have D: "handleRetryFileUpdate sv st i (processedData st)
        = map Some (processedData (handleRetryFile sv st i))
      \<and> list_all errorIffMarker (processedData (handleRetryFile sv st i))"
    if "list_all errorIffMarker (processedData st)" "markerFree sv (files st)"
      "i < length (processedData st)" "isFailure (processedData st ! i)"
    using C [OF that] by (simp add: handleRetryFileUpdate_same_state arrayDocs_map_Some)
  from A B C [of prevData captured] D show ?thesis by blast
qed

text \<open>
  The theorem on the example batch; on a successful and a failing retry of its failed
  slot 2; and on a second, successful retry of that slot whose callback still holds the
  sequence from before the failing one.
\<close>

theorem error_iff_marker_invariant_witness:
  "list_all errorIffMarker (processedData processedExample)
   \<and> list_all errorIffMarker (processedData (handleRetryFile repairedServices processedExample 2))
   \<and> list_all errorIffMarker (processedData (handleRetryFile unknownServices processedExample 2))
   \<and> hasProp ''error'' (processedData processedExample ! 2)
   \<and> \<not> hasProp ''error'' (processedData (handleRetryFile repairedServices processedExample 2) ! 2)
   \<and> hasProp ''error'' (processedData (handleRetryFile unknownServices processedExample 2) ! 2)
   \<and> processedData (handleRetryFile unknownServices processedExample 2) \<noteq> processedData processedExample
   \<and> list_all errorIffMarker (arrayDocs (handleRetryFileUpdate repairedServices processedExample 2
        (processedData (handleRetryFile unknownServices processedExample 2))))
   \<and> length (handleRetryFileUpdate repairedServices processedExample 2
        (processedData (handleRetryFile unknownServices processedExample 2))) = 3"
proof -
  have h1: "files exampleState \<noteq> []"
    by (simp add: exampleState_def)
  have h2: "markerFree exampleServices (files exampleState)"
    by code_simp
  have h3: "markerFree repairedServices (files processedExample)"
    by code_simp
  have h4: "markerFree unknownServices (files processedExample)"
    by code_simp
  have h5: "2 < length (processedData processedExample)"
    by code_simp
  have h6: "isFailure (processedData processedExample ! 2)"
    by code_simp
  have h7: "2 < length (processedData (handleRetryFile unknownServices processedExample 2))"
    by code_simp
  have h8: "isFailure (processedData (handleRetryFile unknownServices processedExample 2) ! 2)"
    by code_simp
  have h9: "length (processedData (handleRetryFile unknownServices processedExample 2)) = 3"
    by code_simp
  have e1: "hasProp ''error'' (processedData processedExample ! 2)"
    by code_simp
  have e2: "\<not> hasProp ''error'' (processedData (handleRetryFile repairedServices processedExample 2) ! 2)"
    by code_simp
  have e3: "hasProp ''error'' (processedData (handleRetryFile unknownServices processedExample 2) ! 2)"
    by code_simp
  have e4: "processedData (handleRetryFile unknownServices processedExample 2) \<noteq> processedData processedExample"
    by code_simp
  have b: "list_all errorIffMarker (processedData processedExample)"
    using error_iff_marker_invariant [where st = exampleState and r = False and sv = exampleServices
        and i = 0 and prevData = "[]" and captured = exampleState] h1 h2
    by (simp add: processedExample_def)
  have r: "list_all errorIffMarker (processedData (handleRetryFile repairedServices processedExample 2))"
    using error_iff_marker_invariant [where st = processedExample and r = False
        and sv = repairedServices and i = 2 and prevData = "[]" and captured = processedExample]
      b h3 h5 h6 by blast
  have u: "list_all errorIffMarker (processedData (handleRetryFile unknownServices processedExample 2))"
    using error_iff_marker_invariant [where st = processedExample and r = False
        and sv = unknownServices and i = 2 and prevData = "[]" and captured = processedExample]
      b h4 h5 h6 by blast
  have l: "list_all errorIffMarker (arrayDocs (handleRetryFileUpdate repairedServices processedExample 2
        (processedData (handleRetryFile unknownServices processedExample 2))))
     \<and> length (handleRetryFileUpdate repairedServices processedExample 2
        (processedData (handleRetryFile unknownServices processedExample 2)))
        = length (processedData (handleRetryFile unknownServices processedExample 2))"
    using error_iff_marker_invariant [where st = processedExample and r = False
        and sv = repairedServices and i = 2 and captured = processedExample
        and prevData = "processedData (handleRetryFile unknownServices processedExample 2)"]
      u h3 h7 h8 by blast
  from b r u l e1 e2 e3 e4 h9 show ?thesis by simp
qed

text \<open>
  Claim C3 as it is worded fails. A supply request whose order number is read as the
  marker text is published with the marker and without \<open>error\<close>. A retry at slot 1 of the
  example state, which holds the work order 1001, that fails leaves a document with an
  \<open>error\<close> and without the marker, although the biconditional held before. And a retry
  clicked on the failed row of \<open>b.pdf\<close> while the batch over \<open>b.pdf\<close> and \<open>a.pdf\<close> still
  runs, at slot 0 of the sequence published before the sort, that fails after the sorted
  sequence is published, writes its \<open>error\<close> into slot 0 of the sorted sequence: the
  work order 1001.
\<close>

theorem error_iff_marker_counterexample:
  "processedData (handleProcessFiles False markerServices \<lparr>files = [fileC], processedData = []\<rparr>)
     = [processFile markerServices fileC]
   \<and> isFailure (processFile markerServices fileC)
   \<and> \<not> hasProp ''error'' (processFile markerServices fileC)
   \<and> list_all errorIffMarker (processedData processedExample)
   \<and> hasProp ''error'' (processedData (handleRetryFile unknownServices processedExample 1) ! 1)
   \<and> \<not> isFailure (processedData (handleRetryFile unknownServices processedExample 1) ! 1)
   \<and> isFailure (processedData batchBeforeSort ! 0)
   \<and> list_all errorIffMarker (processedData batchBeforeSort)
   \<and> list_all errorIffMarker (processedData batchAfterSort)
   \<and> handleRetryFileUpdate unknownServices batchBeforeSort 0 (processedData batchAfterSort)
       = [Some (setProp ''error'' ''No se pudo reconocer el tipo de documento al reintentar.''
                  (processedData batchAfterSort ! 0)),
          Some (processedData batchAfterSort ! 1)]
   \<and> getProp (processedData batchAfterSort ! 0) ''orden'' = Some ''1001''
   \<and> \<not> list_all errorIffMarker
         (arrayDocs (handleRetryFileUpdate unknownServices batchBeforeSort 0 (processedData batchAfterSort)))"
  by code_simp

section \<open>The export file name\<close>

lemma archivo_workOrderDoc:
  "getProp (workOrderDoc e fn) ''archivo''
     = Some (if ExtractedWorkOrderData.orden e \<noteq> [] then ExtractedWorkOrderData.orden e @ ''.pdf'' else fn)"
  by (simp add: getProp_def workOrderDoc_def archivoFor_def)

lemma archivo_supplyRequestDoc:
  "getProp (supplyRequestDoc e fn) ''archivo''
     = Some (if ExtractedSupplyData.orden e \<noteq> [] then ExtractedSupplyData.orden e @ ''.pdf'' else fn)"
  by (simp add: getProp_def supplyRequestDoc_def archivoFor_def)

lemma archivo_uninstallationDoc:
  "getProp (uninstallationDoc e fn) ''archivo''
     = Some (if ExtractedUninstallationData.folio e \<noteq> []
             then ExtractedUninstallationData.folio e @ ''.pdf'' else fn)"
  "getProp (uninstallationDoc e fn) ''link'' = getProp (uninstallationDoc e fn) ''archivo''"
  by (simp_all add: getProp_def uninstallationDoc_def archivoFor_def Let_def)

lemma archivo_installationDoc:
  "getProp (installationDoc e fn) ''archivo''
     = Some (if ExtractedInstallationData.folio e \<noteq> []
             then ExtractedInstallationData.folio e @ ''.pdf'' else fn)"
  "getProp (installationDoc e fn) ''link'' = getProp (installationDoc e fn) ''archivo''"
  by (simp_all add: getProp_def installationDoc_def archivoFor_def Let_def)

lemma linkIsArchivo_docs:
  "linkIsArchivo (workOrderDoc w fn)" "linkIsArchivo (supplyRequestDoc s fn)"
  "linkIsArchivo (uninstallationDoc u fn)" "linkIsArchivo (installationDoc i fn)"
  "linkIsArchivo (failureDoc fn m)"
  by (simp_all add: linkIsArchivo_def getProp_def doc_defs failureDoc_def Let_def)

lemma orden_docs:
  "getProp (workOrderDoc w fn) ''orden'' = Some (ExtractedWorkOrderData.orden w)"
  "getProp (supplyRequestDoc s fn) ''orden'' = Some (ExtractedSupplyData.orden s)"
  "getProp (uninstallationDoc u fn) ''orden'' = Some (ExtractedUninstallationData.folio u)"
  "getProp (installationDoc i fn) ''orden'' = Some (ExtractedInstallationData.folio i)"
  by (simp_all add: getProp_def doc_defs Let_def)

lemma originalFileName_docs:
  "getProp (workOrderDoc w fn) ''originalFileName'' = Some fn"
  "getProp (supplyRequestDoc s fn) ''originalFileName'' = Some fn"
  "getProp (uninstallationDoc u fn) ''originalFileName'' = Some fn"
  "getProp (installationDoc i fn) ''originalFileName'' = Some fn"
  by (simp_all add: getProp_def doc_defs Let_def)

text \<open>What a successful pass through the \<open>try\<close> body builds, for the batch and for the retry.\<close>

lemma classifyAndExtract_archivo:
  assumes "classifyAndExtract sv m f = Inr d"
  shows "\<exists>ident. extractedIdent sv f = Some ident
           \<and> getProp d ''orden'' = Some ident
           \<and> getProp d ''archivo'' = Some (if ident \<noteq> [] then ident @ ''.pdf'' else name f)
           \<and> getProp d ''originalFileName'' = Some (name f)
           \<and> linkIsArchivo d"
proof (rule classifyAndExtract_cases [where sv = sv and m = m and f = f])
  fix b e
  assume c: "classifyAndExtract sv m f = Inr (workOrderDoc e (name f))"
    and i: "extractedIdent sv f = Some (ExtractedWorkOrderData.orden e)"
  from c assms have "d = workOrderDoc e (name f)" by simp
  with i show ?thesis
    by (simp only: archivo_workOrderDoc orden_docs originalFileName_docs linkIsArchivo_docs) simp
next
  fix b e
  assume c: "classifyAndExtract sv m f = Inr (supplyRequestDoc e (name f))"
    and i: "extractedIdent sv f = Some (ExtractedSupplyData.orden e)"
  from c assms have "d = supplyRequestDoc e (name f)" by simp
  with i show ?thesis
    by (simp only: archivo_supplyRequestDoc orden_docs originalFileName_docs linkIsArchivo_docs) simp
next
  fix b e
  assume c: "classifyAndExtract sv m f = Inr (uninstallationDoc e (name f))"
    and i: "extractedIdent sv f = Some (ExtractedUninstallationData.folio e)"
  from c assms have "d = uninstallationDoc e (name f)" by simp
  with i show ?thesis
    by (simp only: archivo_uninstallationDoc orden_docs originalFileName_docs linkIsArchivo_docs) simp
next
  fix b e
  assume c: "classifyAndExtract sv m f = Inr (installationDoc e (name f))"
    and i: "extractedIdent sv f = Some (ExtractedInstallationData.folio e)"
  from c assms have "d = installationDoc e (name f)" by simp
  with i show ?thesis
    by (simp only: archivo_installationDoc orden_docs originalFileName_docs linkIsArchivo_docs) simp
qed (use assms in simp_all)

text \<open>
  Claim C8. In each of the four records the handlers build, \<open>archivo\<close> is the identifier
  (\<open>orden\<close> of a work order or supply request, \<open>folio\<close> of an installation or
  uninstallation) followed by \<open>.pdf\<close> when the identifier is not empty, and the name of
  the uploaded file when it is empty; in the installation and uninstallation records
  \<open>link\<close> is that same value. The batch publishes these records for the files that
  succeed, and a retry that succeeds puts such a record, built from the file found under
  the recorded name, into its slot; every installation and uninstallation document so
  produced has \<open>link\<close> equal to \<open>archivo\<close>.
\<close>

theorem archivo_derivation:
  "getProp (workOrderDoc w fn) ''archivo''
     = Some (if ExtractedWorkOrderData.orden w \<noteq> [] then ExtractedWorkOrderData.orden w @ ''.pdf'' else fn)
   \<and> getProp (supplyRequestDoc s fn) ''archivo''
     = Some (if ExtractedSupplyData.orden s \<noteq> [] then ExtractedSupplyData.orden s @ ''.pdf'' else fn)
   \<and> getProp (uninstallationDoc u fn) ''archivo''
     = Some (if ExtractedUninstallationData.folio u \<noteq> []
             then ExtractedUninstallationData.folio u @ ''.pdf'' else fn)
   \<and> getProp (uninstallationDoc u fn) ''link'' = getProp (uninstallationDoc u fn) ''archivo''
   \<and> getProp (installationDoc i fn) ''archivo''
     = Some (if ExtractedInstallationData.folio i \<noteq> []
             then ExtractedInstallationData.folio i @ ''.pdf'' else fn)
   \<and> getProp (installationDoc i fn) ''link'' = getProp (installationDoc i fn) ''archivo''
   \<and> (extractedIdent sv f = Some ident \<longrightarrow>
        getProp (processFile sv f) ''archivo'' = Some (if ident \<noteq> [] then ident @ ''.pdf'' else name f)
        \<and> getProp (processFile sv f) ''orden'' = Some ident)
   \<and> linkIsArchivo (processFile sv f)
   \<and> (k < length (processedData st)
        \<and> find (\<lambda>f. Some (name f) = getProp (processedData st ! k) ''originalFileName'') (files st) = Some g
        \<and> extractedIdent sv g = Some ident \<longrightarrow>
        getProp (processedData (handleRetryFile sv st k) ! k) ''archivo''
          = Some (if ident \<noteq> [] then ident @ ''.pdf'' else name g)
        \<and> getProp (processedData (handleRetryFile sv st k) ! k) ''orden'' = Some ident
        \<and> getProp (processedData (handleRetryFile sv st k) ! k) ''originalFileName''
          = getProp (processedData st ! k) ''originalFileName''
        \<and> linkIsArchivo (processedData (handleRetryFile sv st k) ! k))"
proof -
  have P: "getProp (processFile sv f) ''archivo'' = Some (if ident \<noteq> [] then ident @ ''.pdf'' else name f)
        \<and> getProp (processFile sv f) ''orden'' = Some ident"
    if id: "extractedIdent sv f = Some ident"
  proof (cases "classifyAndExtract sv batchUnknownMessage f")
    case (Inl err)
    with id classifyAndExtract_Inl [OF Inl] show ?thesis by simp
  next
    case (Inr d)
    with id classifyAndExtract_archivo [OF Inr] show ?thesis by (auto simp: processFile_def)
  qed
  have L: "linkIsArchivo (processFile sv f)"
  proof (cases "classifyAndExtract sv batchUnknownMessage f")
    case (Inl err)
    then show ?thesis by (simp add: processFile_def linkIsArchivo_docs)
  next
    case (Inr d)
    with classifyAndExtract_archivo [OF Inr] show ?thesis by (auto simp: processFile_def)
  qed
  have R: "getProp (processedData (handleRetryFile sv st k) ! k) ''archivo''
          = Some (if ident \<noteq> [] then ident @ ''.pdf'' else name g)
        \<and> getProp (processedData (handleRetryFile sv st k) ! k) ''orden'' = Some ident
        \<and> getProp (processedData (handleRetryFile sv st k) ! k) ''originalFileName''
          = getProp (processedData st ! k) ''originalFileName''
        \<and> linkIsArchivo (processedData (handleRetryFile sv st k) ! k)"
    if k: "k < length (processedData st)"
      and g: "find (\<lambda>f. Some (name f) = getProp (processedData st ! k) ''originalFileName'') (files st) = Some g"
      and id: "extractedIdent sv g = Some ident"
  proof (cases "classifyAndExtract sv retryUnknownMessage g")
    case (Inl err)
    with id classifyAndExtract_Inl [OF Inl] show ?thesis by simp
  next
    case (Inr d)
    from g have nm: "Some (name g) = getProp (processedData st ! k) ''originalFileName''"
      by (auto simp: find_Some_iff)
    from k g Inr have "processedData (handleRetryFile sv st k) ! k = d"
      by (simp add: handleRetryFile_def Let_def)
    with id nm classifyAndExtract_archivo [OF Inr] show ?thesis by auto
  qed
  from P L R show ?thesis
    by (simp add: archivo_workOrderDoc archivo_supplyRequestDoc archivo_uninstallationDoc
        archivo_installationDoc)
qed

text \<open>
  The theorem on the installation \<open>d.pdf\<close> with folio \<open>FOL123\<close>, on the supply request
  \<open>c.pdf\<close> with an empty order number, and on the successful retry of the failed
  \<open>b.pdf\<close>, an uninstallation with folio \<open>U77\<close>.
\<close>

theorem archivo_derivation_witness:
  "getProp (processFile exampleServices fileD) ''archivo'' = Some ''FOL123.pdf''
   \<and> getProp (processFile exampleServices fileD) ''link'' = Some ''FOL123.pdf''
   \<and> getProp (processFile exampleServices fileC) ''archivo'' = Some ''c.pdf''
   \<and> getProp (processedData (handleRetryFile repairedServices processedExample 2) ! 2) ''archivo''
       = Some ''U77.pdf''
   \<and> getProp (processedData (handleRetryFile repairedServices processedExample 2) ! 2) ''link''
       = Some ''U77.pdf''"
proof -
  have d: "extractedIdent exampleServices fileD = Some ''FOL123''" "name fileD = ''d.pdf''"
    "getProp (processFile exampleServices fileD) ''type'' = Some ''installation''"
    by (simp_all add: extractedIdent_def exampleServices_def fileD_def processFile_def
        classifyAndExtract_def installationDoc_def getProp_def Let_def)
  have c: "extractedIdent exampleServices fileC = Some []" "name fileC = ''c.pdf''"
    by (simp_all add: extractedIdent_def exampleServices_def fileC_def)
  have r1: "2 < length (processedData processedExample)"
    by code_simp
  have r2: "find (\<lambda>f. Some (name f) = getProp (processedData processedExample ! 2) ''originalFileName'')
              (files processedExample) = Some fileB"
    by code_simp
  have r3: "extractedIdent repairedServices fileB = Some ''U77''"
    by code_simp
  have r4: "getProp (processedData (handleRetryFile repairedServices processedExample 2) ! 2) ''type''
              = Some ''uninstallation''"
    by code_simp
  from archivo_derivation [where sv = exampleServices and f = fileD and ident = "''FOL123''"
         and k = 2 and st = processedExample and g = fileB]
  have D: "getProp (processFile exampleServices fileD) ''archivo'' = Some ''FOL123.pdf''"
    "linkIsArchivo (processFile exampleServices fileD)"
    using d by simp_all
  from archivo_derivation [where sv = exampleServices and f = fileC and ident = "[]"
         and k = 2 and st = processedExample and g = fileB]
  have C: "getProp (processFile exampleServices fileC) ''archivo'' = Some ''c.pdf''"
    using c by simp
  from archivo_derivation [where sv = repairedServices and f = fileB and ident = "''U77''"
         and k = 2 and st = processedExample and g = fileB]
  have R: "getProp (processedData (handleRetryFile repairedServices processedExample 2) ! 2) ''archivo''
       = Some ''U77.pdf''"
    "linkIsArchivo (processedData (handleRetryFile repairedServices processedExample 2) ! 2)"
    using r1 r2 r3 by simp_all
  from D C R d(3) r4 show ?thesis
    by (simp add: linkIsArchivo_def)
qed

section \<open>A marker read as an identifier\<close>

lemma failCount_filter: "failCount allData = length (filter isFailure allData)"
proof -
  have "length allData = length (filter isFailure allData) + length (filter (\<lambda>d. \<not> isFailure d) allData)"
    by (rule sum_length_filter_compl [symmetric])
  then show ?thesis by (simp add: failCount_def successCount_def)
qed

lemma exportList_excludes: "isFailure d \<Longrightarrow> d \<notin> set (exportList t docs)"
  by (simp add: exportList_def)

lemma files_handleProcessFiles: "files (handleProcessFiles r sv st) = files st"
  by (simp add: handleProcessFiles_def Let_def)

text \<open>
  Claim C10. Take a file that is classified and extracted without error and whose
  extracted identifier is the marker text. Its document has no \<open>error\<close>, yet it has the
  marker as \<open>orden\<close>: the summary counts it among the failures, none of the four lists
  of the Excel export contains it, and it is not among the documents the ZIP handler adds
  for any type. When it is the only file, the summary is 0 successes and 1 failure, and
  neither the Excel export nor the archive is produced.
\<close>

theorem marker_identifier_treated_as_failure:
  assumes "extractedIdent sv f = Some failureMarker" and "f \<in> set fs"
  shows "classifyAndExtract sv batchUnknownMessage f = Inr (processFile sv f)
    \<and> \<not> hasProp ''error'' (processFile sv f)
    \<and> processFile sv f \<in> set (processedData (handleProcessFiles r sv \<lparr>files = fs, processedData = old\<rparr>))
    \<and> processFile sv f \<in> set (filter isFailure (processLoop sv fs []))
    \<and> failCount (processLoop sv fs []) = length (filter isFailure (processLoop sv fs []))
    \<and> 0 < failCount (processLoop sv fs [])
    \<and> processFile sv f \<notin> set (exportList t
          (processedData (handleProcessFiles r sv \<lparr>files = fs, processedData = old\<rparr>)))
    \<and> handleDownloadZip (handleProcessFiles r sv \<lparr>files = fs, processedData = old\<rparr>) t
        = (if exportList t (processedData (handleProcessFiles r sv \<lparr>files = fs, processedData = old\<rparr>)) = []
           then None
           else Some (zipEntries fs (exportList t
                  (processedData (handleProcessFiles r sv \<lparr>files = fs, processedData = old\<rparr>)))))
    \<and> (fs = [f] \<longrightarrow>
          successCount (processLoop sv fs []) = 0 \<and> failCount (processLoop sv fs []) = 1
          \<and> handleExportAll (handleProcessFiles r sv \<lparr>files = fs, processedData = old\<rparr>) = None
          \<and> handleDownloadZip (handleProcessFiles r sv \<lparr>files = fs, processedData = old\<rparr>) t = None)"
proof -
  let ?d = "processFile sv f"
  let ?st = "handleProcessFiles r sv \<lparr>files = fs, processedData = old\<rparr>"
  obtain d where ok: "classifyAndExtract sv batchUnknownMessage f = Inr d"
    using assms(1) classifyAndExtract_Inl [of sv batchUnknownMessage f]
    by (cases "classifyAndExtract sv batchUnknownMessage f") auto
  then have d: "?d = d" by (simp add: processFile_def)
  have noerr: "\<not> hasProp ''error'' ?d" and fail: "isFailure ?d"
    using classifyAndExtract_Inr [OF ok] assms(1) d by (simp_all add: isFailure_def)
  have ne: "files \<lparr>files = fs, processedData = old\<rparr> \<noteq> []"
    using assms(2) by auto
  have mem: "?d \<in> set (processedData ?st)"
    using set_handleProcessFiles [OF ne, of r sv] assms(2) by simp
  have inloop: "?d \<in> set (filter isFailure (processLoop sv fs []))"
    using assms(2) fail by (simp add: processLoop_map)
  then have pos: "0 < length (filter isFailure (processLoop sv fs []))"
    by (cases "filter isFailure (processLoop sv fs [])") auto
  have zip: "handleDownloadZip ?st t
        = (if exportList t (processedData ?st) = [] then None
           else Some (zipEntries fs (exportList t (processedData ?st))))"
    by (simp add: handleDownloadZip_def Let_def files_handleProcessFiles)
  have single: "successCount (processLoop sv fs []) = 0 \<and> failCount (processLoop sv fs []) = 1
          \<and> handleExportAll ?st = None \<and> handleDownloadZip ?st t = None" if one: "fs = [f]"
  proof -
    have pd: "processedData (handleProcessFiles r sv \<lparr>files = [f], processedData = old\<rparr>) = [?d]"
      by (simp add: handleProcessFiles_def Let_def jsSort_def)
    have ex: "exportList u [?d] = []" for u
      using fail by (simp add: exportList_def)
    show ?thesis
      using one fail
      by (simp add: successCount_def failCount_def handleExportAll_def handleDownloadZip_def
          pd ex Let_def)
  qed
  show ?thesis
    using ok d noerr mem inloop pos zip single exportList_excludes [OF fail]
    by (simp add: failCount_filter)
qed

text \<open>
  The theorem on the supply request \<open>c.pdf\<close>, whose order number the extractor reads as
  the marker text.
\<close>

theorem marker_identifier_treated_as_failure_witness:
  "extractedIdent markerServices fileC = Some ''Fallo de Procesamiento''
   \<and> getProp (processFile markerServices fileC) ''type'' = Some ''supplyRequest''
   \<and> \<not> hasProp ''error'' (processFile markerServices fileC)
   \<and> successCount (processLoop markerServices [fileC] []) = 0
   \<and> failCount (processLoop markerServices [fileC] []) = 1
   \<and> handleExportAll (handleProcessFiles False markerServices \<lparr>files = [fileC], processedData = []\<rparr>) = None
   \<and> handleDownloadZip (handleProcessFiles False markerServices \<lparr>files = [fileC], processedData = []\<rparr>)
        ''supplyRequest'' = None"
proof -
  have h: "extractedIdent markerServices fileC = Some failureMarker"
    by code_simp
  have t: "getProp (processFile markerServices fileC) ''type'' = Some ''supplyRequest''"
    by code_simp
  have s: "fileC \<in> set [fileC]" by simp
  note T = marker_identifier_treated_as_failure [OF h s, of False "[]" "''supplyRequest''"]
  from T have a: "\<not> hasProp ''error'' (processFile markerServices fileC)"
    by blast
  from T have b: "successCount (processLoop markerServices [fileC] []) = 0
     \<and> failCount (processLoop markerServices [fileC] []) = 1
     \<and> handleExportAll (handleProcessFiles False markerServices \<lparr>files = [fileC], processedData = []\<rparr>) = None
     \<and> handleDownloadZip (handleProcessFiles False markerServices \<lparr>files = [fileC], processedData = []\<rparr>)
          ''supplyRequest'' = None"
    by blast
  from a b t h [unfolded failureMarker_def] show ?thesis
    by blast
qed

section \<open>The field edit and the captured sequence\<close>

text \<open>
  Claim C9 asks that an edit of row \<open>index\<close> of the modal change the document that the
  filtered view of the current state shows in that row. \<open>handleDataUpdate\<close> filters the
  sequence it captured instead (line 115), as the bug report of the repository records.
  After the batch of the two failing files \<open>b.pdf\<close> and \<open>e.pdf\<close> the modal for work orders
  shows both sentinels. A retry then turns \<open>b.pdf\<close> into an uninstallation, so row 0 of
  the work orders in the current state is the sentinel of \<open>e.pdf\<close>, at position 1. An
  edit of row 0 through the callback that captured the sequence before the retry writes
  into position 0, the uninstallation, and leaves position 1 alone. The callback that
  captured the current sequence writes into position 1.
\<close>

theorem handleDataUpdate_stale_snapshot:
  "dataForModal (Some ''workOrder'') (processedData (handleRetryFile repairedServices twoFailures 0))
     = [processedData (handleRetryFile repairedServices twoFailures 0) ! 1]
   \<and> getProp (processedData (handleRetryFile repairedServices twoFailures 0) ! 0) ''type''
       = Some ''uninstallation''
   \<and> handleDataUpdate (processedData twoFailures) (Some ''workOrder'') 0 ''serie'' ''X''
        (processedData (handleRetryFile repairedServices twoFailures 0))
     = [setProp ''serie'' ''X'' (processedData (handleRetryFile repairedServices twoFailures 0) ! 0),
        processedData (handleRetryFile repairedServices twoFailures 0) ! 1]
   \<and> handleDataUpdate (processedData (handleRetryFile repairedServices twoFailures 0))
        (Some ''workOrder'') 0 ''serie'' ''X''
        (processedData (handleRetryFile repairedServices twoFailures 0))
     = [processedData (handleRetryFile repairedServices twoFailures 0) ! 0,
        setProp ''serie'' ''X'' (processedData (handleRetryFile repairedServices twoFailures 0) ! 1)]
   \<and> getProp (processedData (handleRetryFile repairedServices twoFailures 0) ! 0) ''serie'' = Some ''S3''
   \<and> getProp (processedData (handleRetryFile repairedServices twoFailures 0) ! 1) ''serie'' = Some ''Error''"
  by code_simp

end
